theory Spec2Isabelle
  imports Main
begin

section \<open>Named string types and constants\<close>

text \<open>
  The package declares four string types and a pair struct:
  \<^verbatim>\<open>AppMode string; Encoding string; Level string; ContextKey string;
  LoggingField struct { Key ContextKey; Value string }\<close>.
\<close>

type_synonym AppMode = string
type_synonym Encoding = string
type_synonym Level = string
type_synonym ContextKey = string

record LoggingField =
  Key :: ContextKey
  Value :: string

definition AppModeDevelopment :: AppMode where "AppModeDevelopment = ''development''"
definition AppModeStaging :: AppMode where "AppModeStaging = ''staging''"
definition AppModeProduction :: AppMode where "AppModeProduction = ''production''"
definition AppModeEmpty :: AppMode where "AppModeEmpty = ''empty''"

definition EncodingJson :: Encoding where "EncodingJson = ''json''"
definition EncodingConsole :: Encoding where "EncodingConsole = ''console''"

definition LevelDebug :: Level where "LevelDebug = ''debug''"
definition LevelInfo :: Level where "LevelInfo = ''info''"
definition LevelWarning :: Level where "LevelWarning = ''warning''"
definition LevelError :: Level where "LevelError = ''error''"
definition LevelPanic :: Level where "LevelPanic = ''panic''"
definition LevelFatal :: Level where "LevelFatal = ''fatal''"

definition ContextKeyUserID :: ContextKey where "ContextKeyUserID = ''user_id''"
definition ContextKeyTraceID :: ContextKey where "ContextKeyTraceID = ''trace_id''"
definition ContextKeySpanID :: ContextKey where "ContextKeySpanID = ''span_id''"
definition ContextKeyEntityGuid :: ContextKey where "ContextKeyEntityGuid = ''entity_guid''"
definition ContextKeyHostname :: ContextKey where "ContextKeyHostname = ''hostname''"
definition ContextKeyApplicationName :: ContextKey where
  "ContextKeyApplicationName = ''application_name''"
definition ContextKeyApplicationEnvironment :: ContextKey where
  "ContextKeyApplicationEnvironment = ''application_environment''"
definition ContextKeyRequestID :: ContextKey where "ContextKeyRequestID = ''request_id''"
definition ContextKeyAcceptLanguage :: ContextKey where
  "ContextKeyAcceptLanguage = ''accept_language''"
definition ContextKeyUserContext :: ContextKey where "ContextKeyUserContext = ''user_context''"
definition ContextKeyIpAddress :: ContextKey where "ContextKeyIpAddress = ''ip_address''"

lemmas const_defs =
  AppModeDevelopment_def AppModeStaging_def AppModeProduction_def AppModeEmpty_def
  EncodingJson_def EncodingConsole_def
  LevelDebug_def LevelInfo_def LevelWarning_def LevelError_def LevelPanic_def LevelFatal_def
  ContextKeyUserID_def ContextKeyTraceID_def ContextKeySpanID_def ContextKeyEntityGuid_def
  ContextKeyHostname_def ContextKeyApplicationName_def ContextKeyApplicationEnvironment_def
  ContextKeyRequestID_def ContextKeyAcceptLanguage_def ContextKeyUserContext_def
  ContextKeyIpAddress_def

text \<open>
  The package-level variable \<^verbatim>\<open>contextKeys\<close> is mutable global state. The
  functions that read or write it take its current value as their first argument; this
  is its initial value.
\<close>

definition contextKeys_init :: "ContextKey list" where
  "contextKeys_init =
     [ContextKeyUserID, ContextKeyTraceID, ContextKeySpanID, ContextKeyEntityGuid,
      ContextKeyHostname, ContextKeyApplicationName, ContextKeyApplicationEnvironment,
      ContextKeyRequestID, ContextKeyAcceptLanguage, ContextKeyUserContext,
      ContextKeyIpAddress]"

section \<open>Contexts\<close>

text \<open>
  A Go \<^verbatim>\<open>context.Context\<close> is an immutable chain of key/value bindings; the
  innermost binding of a key wins. Values have dynamic type \<^verbatim>\<open>any\<close>: the nil
  interface, a string, or something else. The keys looked up by this package are all of
  type \<^verbatim>\<open>ContextKey\<close>, so only bindings under keys of that type can be found and
  only those are represented. A nil context is \<open>None\<close>.
\<close>

datatype any = any_nil | any_string string | any_int int | any_bool bool

datatype Context = Background | WithValue Context ContextKey any

fun ctx_Value :: "Context \<Rightarrow> ContextKey \<Rightarrow> any" where
  "ctx_Value Background key = any_nil"
| "ctx_Value (WithValue parent k v) key = (if key = k then v else ctx_Value parent key)"

section \<open>Field extraction\<close>

definition getStringFromContext :: "Context option \<Rightarrow> ContextKey \<Rightarrow> string \<times> bool" where
  "getStringFromContext ctx key =
     (case ctx of
        None \<Rightarrow> ('''', False)
      | Some c \<Rightarrow>
          if key = '''' then ('''', False)
          else (case ctx_Value c key of
                  any_nil \<Rightarrow> ('''', False)
                | any_string str \<Rightarrow> (str, True)
                | _ \<Rightarrow> ('''', False)))"

text \<open>
  The \<^verbatim>\<open>for _, key := range contextKeys\<close> loop of \<^verbatim>\<open>GetLoggingFields\<close>; the
  last argument is the slice \<^verbatim>\<open>fields\<close> built so far.
\<close>

fun GetLoggingFields_loop ::
  "Context option \<Rightarrow> ContextKey list \<Rightarrow> LoggingField list \<Rightarrow> LoggingField list" where
  "GetLoggingFields_loop ctx [] flds = flds"
| "GetLoggingFields_loop ctx (key # keys) flds =
     (if key = '''' then GetLoggingFields_loop ctx keys flds
      else (case getStringFromContext ctx key of
              (value, True) \<Rightarrow>
                GetLoggingFields_loop ctx keys (flds @ [\<lparr>Key = key, Value = value\<rparr>])
            | (value, False) \<Rightarrow> GetLoggingFields_loop ctx keys flds))"

definition GetLoggingFields :: "ContextKey list \<Rightarrow> Context option \<Rightarrow> LoggingField list" where
  "GetLoggingFields contextKeys ctx =
     (if ctx = None then [] else GetLoggingFields_loop ctx contextKeys [])"

definition AppendContextKeys :: "ContextKey list \<Rightarrow> ContextKey list \<Rightarrow> ContextKey list" where
  "AppendContextKeys contextKeys keys = contextKeys @ keys"

section \<open>Validity tables and string conversions\<close>

text \<open>
  \<^verbatim>\<open>validAppMode\<close> and \<^verbatim>\<open>validEncoding\<close> are Go maps to bool; indexing a
  Go map at a missing key yields the zero value \<^verbatim>\<open>false\<close>.
\<close>

definition validAppMode :: "AppMode \<rightharpoonup> bool" where
  "validAppMode =
     [AppModeDevelopment \<mapsto> True, AppModeProduction \<mapsto> True, AppModeStaging \<mapsto> True]"

definition validEncoding :: "Encoding \<rightharpoonup> bool" where
  "validEncoding = [EncodingConsole \<mapsto> True, EncodingJson \<mapsto> True]"

definition map_index :: "('k \<rightharpoonup> bool) \<Rightarrow> 'k \<Rightarrow> bool" where
  "map_index m k = (case m k of None \<Rightarrow> False | Some b \<Rightarrow> b)"

definition AppMode_String :: "AppMode \<Rightarrow> string" where
  "AppMode_String am = (if map_index validAppMode am then am else AppModeEmpty)"

definition Encoding_String :: "Encoding \<Rightarrow> string" where
  "Encoding_String e = (if map_index validEncoding e then e else EncodingConsole)"

definition ContextKey_String :: "ContextKey \<Rightarrow> string" where
  "ContextKey_String ck = ck"

section \<open>The logging engine\<close>

text \<open>
  The engine is the external library go.uber.org/zap (v1.27.0 in go.mod), together with
  the New Relic wrapper nrzap. Neither is part of this repository. They are represented
  by the parts of their documented behaviour that this package relies on: the severity
  order, the two configuration presets, what \<^verbatim>\<open>Config.Build\<close> checks, how
  \<^verbatim>\<open>Logger.With\<close> accumulates fields, and the level check of an emission. What
  depends on the machine (which sink paths can be opened, whether the monitoring handle
  attaches, the text of the engine's own errors) is a parameter, the record \<open>env\<close>.
  The production preset puts a sampler in front of the core: it counts the entries of
  one level and message within a tick of one second and drops those beyond a quota. The
  counter is mutable state of the engine that depends on the clock; an emission takes
  the value the counter shows once the entry is counted as its argument \<open>n\<close>.
\<close>

datatype zapcore_Level =
  DebugLevel | InfoLevel | WarnLevel | ErrorLevel | DPanicLevel | PanicLevel | FatalLevel

fun level_int :: "zapcore_Level \<Rightarrow> int" where
  "level_int DebugLevel = -1"
| "level_int InfoLevel = 0"
| "level_int WarnLevel = 1"
| "level_int ErrorLevel = 2"
| "level_int DPanicLevel = 3"
| "level_int PanicLevel = 4"
| "level_int FatalLevel = 5"

datatype Field = zap_String string string | zap_Int string int | zap_Bool string bool

record zapcore_EncoderConfig =
  zap_MessageKey :: string
  zap_LevelKey :: string
  zap_TimeKey :: string
  zap_NameKey :: string
  zap_CallerKey :: string
  zap_FunctionKey :: string
  zap_StacktraceKey :: string
  zap_EncodeLevel :: string
  zap_EncodeTime :: string
  zap_EncodeDuration :: string
  zap_EncodeCaller :: string

record zap_Config =
  zap_Level :: zapcore_Level
  zap_Development :: bool
  zap_DisableCaller :: bool
  zap_DisableStacktrace :: bool
  zap_Sampling :: "(nat \<times> nat) option"
  zap_Encoding :: string
  zap_EncoderConfig :: zapcore_EncoderConfig
  zap_OutputPaths :: "string list"
  zap_ErrorOutputPaths :: "string list"

definition zap_NewDevelopmentEncoderConfig :: zapcore_EncoderConfig where
  "zap_NewDevelopmentEncoderConfig =
     \<lparr>zap_MessageKey = ''M'', zap_LevelKey = ''L'', zap_TimeKey = ''T'', zap_NameKey = ''N'',
      zap_CallerKey = ''C'', zap_FunctionKey = [], zap_StacktraceKey = ''S'',
      zap_EncodeLevel = ''CapitalLevelEncoder'', zap_EncodeTime = ''ISO8601TimeEncoder'',
      zap_EncodeDuration = ''StringDurationEncoder'',
      zap_EncodeCaller = ''ShortCallerEncoder''\<rparr>"

definition zap_NewProductionEncoderConfig :: zapcore_EncoderConfig where
  "zap_NewProductionEncoderConfig =
     \<lparr>zap_MessageKey = ''msg'', zap_LevelKey = ''level'', zap_TimeKey = ''ts'',
      zap_NameKey = ''logger'', zap_CallerKey = ''caller'', zap_FunctionKey = [],
      zap_StacktraceKey = ''stacktrace'',
      zap_EncodeLevel = ''LowercaseLevelEncoder'', zap_EncodeTime = ''EpochTimeEncoder'',
      zap_EncodeDuration = ''SecondsDurationEncoder'',
      zap_EncodeCaller = ''ShortCallerEncoder''\<rparr>"

definition zap_NewDevelopmentConfig :: zap_Config where
  "zap_NewDevelopmentConfig =
     \<lparr>zap_Level = DebugLevel, zap_Development = True, zap_DisableCaller = False,
      zap_DisableStacktrace = False, zap_Sampling = None, zap_Encoding = ''console'',
      zap_EncoderConfig = zap_NewDevelopmentEncoderConfig,
      zap_OutputPaths = [''stderr''], zap_ErrorOutputPaths = [''stderr'']\<rparr>"

definition zap_NewProductionConfig :: zap_Config where
  "zap_NewProductionConfig =
     \<lparr>zap_Level = InfoLevel, zap_Development = False, zap_DisableCaller = False,
      zap_DisableStacktrace = False, zap_Sampling = Some (100, 100), zap_Encoding = ''json'',
      zap_EncoderConfig = zap_NewProductionEncoderConfig,
      zap_OutputPaths = [''stderr''], zap_ErrorOutputPaths = [''stderr'']\<rparr>"

text \<open>
  Errors are values. \<open>errors_New\<close> is Go's \<^verbatim>\<open>errors.New\<close> with its message.
  The others are produced inside the engine and inside the monitoring wrapper:
  \<open>zap_error\<close> when the encoder name is not known, \<open>zap_open_error\<close> when a sink
  does not open, \<open>nrzap_error\<close> when the handle does not attach. The text of the last
  two names paths and carries the operating system's message; it is the machine's.
\<close>

datatype error =
  errors_New string | zap_error string | zap_open_error string | nrzap_error string

type_synonym newrelic_Application = nat

record env =
  sink_opens :: "string \<Rightarrow> bool"
  nr_attaches :: "newrelic_Application \<Rightarrow> bool"
  open_error :: "string list \<Rightarrow> string"
  nr_error :: "newrelic_Application \<Rightarrow> string"

record zapcore_Core =
  core_Encoding :: string
  core_EncoderConfig :: zapcore_EncoderConfig
  core_OutputPaths :: "string list"
  core_Level :: zapcore_Level
  core_Sampling :: "(nat \<times> nat) option"
  core_Fields :: "Field list"
  core_NewRelic :: "newrelic_Application option"

record zap_Logger =
  core :: zapcore_Core
  development :: bool
  addCaller :: bool
  addStack :: "zapcore_Level option"
  errorOutput :: "string list"

text \<open>
  \<^verbatim>\<open>zap.Open\<close>: the names stdout and stderr denote the standard streams and always
  open; any other path is a file or a registered sink, which the machine may refuse.
\<close>

definition zap_Open :: "env \<Rightarrow> string list \<Rightarrow> bool" where
  "zap_Open e paths =
     list_all (\<lambda>p. p = ''stdout'' \<or> p = ''stderr'' \<or> sink_opens e p) paths"

text \<open>
  \<^verbatim>\<open>Config.Build\<close>: look the encoder up by name (only json and console are
  registered), open the sinks, then assemble the logger from the configuration.
\<close>

definition zap_Config_Build :: "env \<Rightarrow> zap_Config \<Rightarrow> error + zap_Logger" where
  "zap_Config_Build e cfg =
     (if zap_Encoding cfg = [] then Inl (zap_error ''no encoder name specified'')
      else if zap_Encoding cfg \<noteq> ''json'' \<and> zap_Encoding cfg \<noteq> ''console''
        then Inl (zap_error ''no encoder registered for name'')
      else if \<not> zap_Open e (zap_OutputPaths cfg)
        then Inl (zap_open_error (open_error e (zap_OutputPaths cfg)))
      else if \<not> zap_Open e (zap_ErrorOutputPaths cfg)
        then Inl (zap_open_error (open_error e (zap_ErrorOutputPaths cfg)))
      else Inr \<lparr>core =
                  \<lparr>core_Encoding = zap_Encoding cfg,
                   core_EncoderConfig = zap_EncoderConfig cfg,
                   core_OutputPaths = zap_OutputPaths cfg,
                   core_Level = zap_Level cfg,
                   core_Sampling = zap_Sampling cfg,
                   core_Fields = [],
                   core_NewRelic = None\<rparr>,
                development = zap_Development cfg,
                addCaller = (\<not> zap_DisableCaller cfg),
                addStack =
                  (if zap_DisableStacktrace cfg then None
                   else Some (if zap_Development cfg then WarnLevel else ErrorLevel)),
                errorOutput = zap_ErrorOutputPaths cfg\<rparr>)"

text \<open>\<^verbatim>\<open>zap.New(core)\<close> without options: a logger around the core with zap's defaults.\<close>

definition zap_New :: "zapcore_Core \<Rightarrow> zap_Logger" where
  "zap_New c =
     \<lparr>core = c, development = False, addCaller = False, addStack = None,
      errorOutput = [''stderr'']\<rparr>"

definition nrzap_WrapBackgroundCore ::
  "env \<Rightarrow> zapcore_Core \<Rightarrow> newrelic_Application \<Rightarrow> error + zapcore_Core" where
  "nrzap_WrapBackgroundCore e c app =
     (if nr_attaches e app then Inr (c\<lparr>core_NewRelic := Some app\<rparr>)
      else Inl (nrzap_error (nr_error e app)))"

text \<open>
  \<^verbatim>\<open>Logger.With\<close> returns the receiver when given no fields, and otherwise a clone
  whose core carries the new fields after the ones already there.
\<close>

definition zap_With :: "zap_Logger \<Rightarrow> Field list \<Rightarrow> zap_Logger" where
  "zap_With l flds =
     (if flds = [] then l
      else l\<lparr>core := (core l)\<lparr>core_Fields := core_Fields (core l) @ flds\<rparr>\<rparr>)"

text \<open>
  The sampler's verdict on the \<open>n\<close>-th entry of its level and message within the
  tick: a core without a sampler admits every entry; a sampler with the quota
  \<open>(first, thereafter)\<close> admits the first \<open>first\<close> entries and then every
  \<open>thereafter\<close>-th one.
\<close>

fun sampler_admits :: "(nat \<times> nat) option \<Rightarrow> nat \<Rightarrow> bool" where
  "sampler_admits None n = True"
| "sampler_admits (Some (first, thereafter)) n =
     (\<not> (n > first \<and> (thereafter = 0 \<or> (n - first) mod thereafter \<noteq> 0)))"

text \<open>
  An emission at severity \<open>lvl\<close>: the entry is written when the core's level is at
  most \<open>lvl\<close> and the sampler admits it; its fields are the core's fields followed by
  the call's. Whether or not the entry is written, the panic severity then panics and the
  fatal severity exits with status 1.
\<close>

record zapcore_Entry =
  entry_Level :: zapcore_Level
  entry_Message :: string
  entry_Fields :: "Field list"

datatype control = Returns | Panics string | Exits int

record emission =
  entry :: "zapcore_Entry option"
  after :: control

definition zap_log ::
  "zap_Logger \<Rightarrow> nat \<Rightarrow> zapcore_Level \<Rightarrow> string \<Rightarrow> Field list \<Rightarrow> emission" where
  "zap_log l n lvl msg flds =
     \<lparr>entry =
        (if level_int (core_Level (core l)) \<le> level_int lvl \<and>
            sampler_admits (core_Sampling (core l)) n
         then Some \<lparr>entry_Level = lvl, entry_Message = msg,
                    entry_Fields = core_Fields (core l) @ flds\<rparr>
         else None),
      after =
        (if lvl = PanicLevel then Panics msg else if lvl = FatalLevel then Exits 1
         else Returns)\<rparr>"

definition zap_Debug :: "zap_Logger \<Rightarrow> nat \<Rightarrow> string \<Rightarrow> Field list \<Rightarrow> emission" where
  "zap_Debug l n msg flds = zap_log l n DebugLevel msg flds"

definition zap_Info :: "zap_Logger \<Rightarrow> nat \<Rightarrow> string \<Rightarrow> Field list \<Rightarrow> emission" where
  "zap_Info l n msg flds = zap_log l n InfoLevel msg flds"

definition zap_Warn :: "zap_Logger \<Rightarrow> nat \<Rightarrow> string \<Rightarrow> Field list \<Rightarrow> emission" where
  "zap_Warn l n msg flds = zap_log l n WarnLevel msg flds"

definition zap_Error :: "zap_Logger \<Rightarrow> nat \<Rightarrow> string \<Rightarrow> Field list \<Rightarrow> emission" where
  "zap_Error l n msg flds = zap_log l n ErrorLevel msg flds"

definition zap_Panic :: "zap_Logger \<Rightarrow> nat \<Rightarrow> string \<Rightarrow> Field list \<Rightarrow> emission" where
  "zap_Panic l n msg flds = zap_log l n PanicLevel msg flds"

definition zap_Fatal :: "zap_Logger \<Rightarrow> nat \<Rightarrow> string \<Rightarrow> Field list \<Rightarrow> emission" where
  "zap_Fatal l n msg flds = zap_log l n FatalLevel msg flds"

section \<open>Configuration and options\<close>

record config =
  Level :: Level
  Encoding :: Encoding
  AppMode :: AppMode
  NewRelicApp :: "newrelic_Application option"
  TimeKey :: string
  LevelKey :: string
  NameKey :: string
  CallerKey :: string
  MessageKey :: string
  StacktraceKey :: string
  DisableStacktrace :: bool
  DisableCaller :: bool
  OutputPaths :: "string list"
  ErrorOutputPaths :: "string list"

text \<open>An \<^verbatim>\<open>Option\<close> is a function that updates the configuration it is given.\<close>

type_synonym Option = "config \<Rightarrow> config"

text \<open>The zero value \<^verbatim>\<open>config{}\<close>: empty strings, nil pointer, false, nil slices.\<close>

definition config_zero :: config where
  "config_zero =
     \<lparr>Level = [], Encoding = [], AppMode = [], NewRelicApp = None,
      TimeKey = [], LevelKey = [], NameKey = [], CallerKey = [], MessageKey = [],
      StacktraceKey = [], DisableStacktrace = False, DisableCaller = False,
      OutputPaths = [], ErrorOutputPaths = []\<rparr>"

definition WithLevel :: "Level \<Rightarrow> Option" where
  "WithLevel level = (\<lambda>c. c\<lparr>Level := level\<rparr>)"

definition WithEncoding :: "Encoding \<Rightarrow> Option" where
  "WithEncoding encoding = (\<lambda>c. c\<lparr>Encoding := encoding\<rparr>)"

definition WithAppMode :: "AppMode \<Rightarrow> Option" where
  "WithAppMode appMode = (\<lambda>c. c\<lparr>AppMode := appMode\<rparr>)"

definition WithNewRelicApp :: "newrelic_Application option \<Rightarrow> Option" where
  "WithNewRelicApp newRelicApp = (\<lambda>c. c\<lparr>NewRelicApp := newRelicApp\<rparr>)"

definition WithDefaultConfig :: Option where
  "WithDefaultConfig =
     (\<lambda>c. c\<lparr>Level := LevelInfo,
             Encoding := EncodingJson,
             AppMode := AppModeDevelopment,
             TimeKey := ''time'',
             LevelKey := ''level'',
             NameKey := ''logger'',
             CallerKey := ''caller'',
             MessageKey := ''message'',
             StacktraceKey := ''stack_trace'',
             DisableStacktrace := True,
             DisableCaller := True,
             OutputPaths := [''stdout''],
             ErrorOutputPaths := [''stderr'']\<rparr>)"

definition WithTimeKey :: "string \<Rightarrow> Option" where
  "WithTimeKey timeKey = (\<lambda>c. c\<lparr>TimeKey := timeKey\<rparr>)"

definition WithLevelKey :: "string \<Rightarrow> Option" where
  "WithLevelKey levelKey = (\<lambda>c. c\<lparr>LevelKey := levelKey\<rparr>)"

definition WithNameKey :: "string \<Rightarrow> Option" where
  "WithNameKey nameKey = (\<lambda>c. c\<lparr>NameKey := nameKey\<rparr>)"

definition WithCallerKey :: "string \<Rightarrow> Option" where
  "WithCallerKey callerKey = (\<lambda>c. c\<lparr>CallerKey := callerKey\<rparr>)"

definition WithMessageKey :: "string \<Rightarrow> Option" where
  "WithMessageKey messageKey = (\<lambda>c. c\<lparr>MessageKey := messageKey\<rparr>)"

definition WithStacktraceKey :: "string \<Rightarrow> Option" where
  "WithStacktraceKey stacktraceKey = (\<lambda>c. c\<lparr>StacktraceKey := stacktraceKey\<rparr>)"

definition WithDisableStacktrace :: "bool \<Rightarrow> Option" where
  "WithDisableStacktrace disableStacktrace = (\<lambda>c. c\<lparr>DisableStacktrace := disableStacktrace\<rparr>)"

definition WithDisableCaller :: "bool \<Rightarrow> Option" where
  "WithDisableCaller disableCaller = (\<lambda>c. c\<lparr>DisableCaller := disableCaller\<rparr>)"

definition WithOutputPaths :: "string list \<Rightarrow> Option" where
  "WithOutputPaths outputPaths = (\<lambda>c. c\<lparr>OutputPaths := outputPaths\<rparr>)"

definition WithErrorOutputPaths :: "string list \<Rightarrow> Option" where
  "WithErrorOutputPaths errorOutputPaths = (\<lambda>c. c\<lparr>ErrorOutputPaths := errorOutputPaths\<rparr>)"

section \<open>Level parsing\<close>

text \<open>
  \<^verbatim>\<open>parseLevel\<close> returns a level and an error; the level returned beside an error
  is the unusable zero value, so the result is a sum.
\<close>

definition parseLevel_empty_message :: string where
  "parseLevel_empty_message =
     ''logging level cannot be empty. Please specify one of: '' @
     ''debug, info, warning, error, panic, fatal''"

definition parseLevel_invalid_message :: "Level \<Rightarrow> string" where
  "parseLevel_invalid_message level =
     ''invalid logging level: '' @ [CHR 0x27] @ level @ [CHR 0x27] @
     ''. Supported levels are: debug, info, warning, error, panic, fatal. '' @
     ''Please check your configuration and ensure you'' @ [CHR 0x27] @
     ''re using one of these valid levels''"

definition parseLevel :: "Level \<Rightarrow> error + zapcore_Level" where
  "parseLevel level =
     (if level = [] then Inl (errors_New parseLevel_empty_message)
      else if level = LevelDebug then Inr DebugLevel
      else if level = LevelInfo then Inr InfoLevel
      else if level = LevelWarning then Inr WarnLevel
      else if level = LevelError then Inr ErrorLevel
      else if level = LevelPanic then Inr PanicLevel
      else if level = LevelFatal then Inr FatalLevel
      else Inl (errors_New (parseLevel_invalid_message level)))"

section \<open>The logger facade\<close>

text \<open>
  \<^verbatim>\<open>Logger\<close> is an interface with two implementations in the package: the wrapper
  struct \<^verbatim>\<open>logger\<close>, which holds a \<^verbatim>\<open>Logger\<close>, and \<^verbatim>\<open>zapLogger\<close>, which
  holds the engine's logger. Neither struct is ever assigned to after it is built.
\<close>

datatype Logger = logger Logger | zapLogger zap_Logger

text \<open>The loop of \<^verbatim>\<open>extractTrace\<close>, appending one string field per logging field.\<close>

fun extractTrace_loop :: "LoggingField list \<Rightarrow> Field list \<Rightarrow> Field list" where
  "extractTrace_loop [] flds = flds"
| "extractTrace_loop (field # ctxFields) flds =
     extractTrace_loop ctxFields
       (flds @ [zap_String (ContextKey_String (Key field)) (Value field)])"

definition extractTrace :: "ContextKey list \<Rightarrow> Context option \<Rightarrow> Field list" where
  "extractTrace contextKeys ctx = extractTrace_loop (GetLoggingFields contextKeys ctx) []"

text \<open>
  The six emission methods. Beside the receiver and the arguments of the source they
  take the two pieces of global state an emission reads: the key registry \<open>cks\<close>
  and the sampler's counter \<open>n\<close> for the entry.
\<close>

fun Info ::
  "ContextKey list \<Rightarrow> nat \<Rightarrow> Logger \<Rightarrow> Context option \<Rightarrow> string \<Rightarrow> Field list \<Rightarrow> emission" where
  "Info cks n (logger l) ctx msg flds = Info cks n l ctx msg flds"
| "Info cks n (zapLogger z) ctx msg flds =
     zap_Info (zap_With z (extractTrace cks ctx)) n msg flds"

fun Warn ::
  "ContextKey list \<Rightarrow> nat \<Rightarrow> Logger \<Rightarrow> Context option \<Rightarrow> string \<Rightarrow> Field list \<Rightarrow> emission" where
  "Warn cks n (logger l) ctx msg flds = Warn cks n l ctx msg flds"
| "Warn cks n (zapLogger z) ctx msg flds =
     zap_Warn (zap_With z (extractTrace cks ctx)) n msg flds"

fun Error ::
  "ContextKey list \<Rightarrow> nat \<Rightarrow> Logger \<Rightarrow> Context option \<Rightarrow> string \<Rightarrow> Field list \<Rightarrow> emission" where
  "Error cks n (logger l) ctx msg flds = Error cks n l ctx msg flds"
| "Error cks n (zapLogger z) ctx msg flds =
     zap_Error (zap_With z (extractTrace cks ctx)) n msg flds"

fun Debug ::
  "ContextKey list \<Rightarrow> nat \<Rightarrow> Logger \<Rightarrow> Context option \<Rightarrow> string \<Rightarrow> Field list \<Rightarrow> emission" where
  "Debug cks n (logger l) ctx msg flds = Debug cks n l ctx msg flds"
| "Debug cks n (zapLogger z) ctx msg flds =
     zap_Debug (zap_With z (extractTrace cks ctx)) n msg flds"

fun Panic ::
  "ContextKey list \<Rightarrow> nat \<Rightarrow> Logger \<Rightarrow> Context option \<Rightarrow> string \<Rightarrow> Field list \<Rightarrow> emission" where
  "Panic cks n (logger l) ctx msg flds = Panic cks n l ctx msg flds"
| "Panic cks n (zapLogger z) ctx msg flds =
     zap_Panic (zap_With z (extractTrace cks ctx)) n msg flds"

fun Fatal ::
  "ContextKey list \<Rightarrow> nat \<Rightarrow> Logger \<Rightarrow> Context option \<Rightarrow> string \<Rightarrow> Field list \<Rightarrow> emission" where
  "Fatal cks n (logger l) ctx msg flds = Fatal cks n l ctx msg flds"
| "Fatal cks n (zapLogger z) ctx msg flds =
     zap_Fatal (zap_With z (extractTrace cks ctx)) n msg flds"

fun With :: "Logger \<Rightarrow> Field list \<Rightarrow> Logger" where
  "With (logger l) flds = With l flds"
| "With (zapLogger z) flds = zapLogger (zap_With z flds)"

fun GetLogger :: "Logger \<Rightarrow> zap_Logger" where
  "GetLogger (logger l) = GetLogger l"
| "GetLogger (zapLogger z) = z"

text \<open>
  Loggers are handed around as pointers. The store lists the logger objects allocated so
  far; a reference is an index into it. \<^verbatim>\<open>&zapLogger{...}\<close> in \<^verbatim>\<open>With\<close>
  allocates: the new object goes to the end of the store and its index is returned.
\<close>

type_synonym store = "Logger list"

definition With_ref :: "store \<Rightarrow> nat \<Rightarrow> Field list \<Rightarrow> store \<times> nat" where
  "With_ref s r flds = (s @ [With (s ! r) flds], length s)"

section \<open>Construction\<close>

text \<open>The \<^verbatim>\<open>for _, opt := range opts\<close> loop of \<^verbatim>\<open>NewLogger\<close>.\<close>

fun apply_options :: "config \<Rightarrow> Option list \<Rightarrow> config" where
  "apply_options cfg [] = cfg"
| "apply_options cfg (opt # opts) = apply_options (opt cfg) opts"

text \<open>The \<^verbatim>\<open>switch cfg.AppMode\<close> of \<^verbatim>\<open>NewLogger\<close>.\<close>

definition NewLogger_preset :: "AppMode \<Rightarrow> error + zap_Config" where
  "NewLogger_preset appMode =
     (if appMode = AppModeDevelopment \<or> appMode = AppModeStaging
        then Inr zap_NewDevelopmentConfig
      else if appMode = AppModeProduction then Inr zap_NewProductionConfig
      else Inl (errors_New ''invalid app mode''))"

text \<open>The twelve assignments to \<^verbatim>\<open>zapConfig\<close> in \<^verbatim>\<open>NewLogger\<close>.\<close>

definition NewLogger_assign :: "config \<Rightarrow> zapcore_Level \<Rightarrow> zap_Config \<Rightarrow> zap_Config" where
  "NewLogger_assign cfg level zapConfig =
     zapConfig
       \<lparr>zap_Level := level,
        zap_Encoding := Encoding_String (Encoding cfg),
        zap_EncoderConfig :=
          (zap_EncoderConfig zapConfig)
            \<lparr>zap_TimeKey := TimeKey cfg,
             zap_LevelKey := LevelKey cfg,
             zap_NameKey := NameKey cfg,
             zap_CallerKey := CallerKey cfg,
             zap_MessageKey := MessageKey cfg,
             zap_StacktraceKey := StacktraceKey cfg\<rparr>,
        zap_DisableStacktrace := DisableStacktrace cfg,
        zap_DisableCaller := DisableCaller cfg,
        zap_OutputPaths := OutputPaths cfg,
        zap_ErrorOutputPaths := ErrorOutputPaths cfg\<rparr>"

text \<open>
  The effective configuration: \<^verbatim>\<open>cfg := &config{}\<close>, the defaults applied to it,
  then the caller's options in order.
\<close>

definition NewLogger_config :: "Option list \<Rightarrow> config" where
  "NewLogger_config opts = apply_options (WithDefaultConfig config_zero) opts"

definition NewLogger :: "env \<Rightarrow> Option list \<Rightarrow> error + Logger" where
  "NewLogger e opts =
     (let cfg = NewLogger_config opts in
      case NewLogger_preset (AppMode cfg) of
        Inl err \<Rightarrow> Inl err
      | Inr zapConfig \<Rightarrow>
          (case parseLevel (Level cfg) of
             Inl err \<Rightarrow> Inl err
           | Inr level \<Rightarrow>
               (case zap_Config_Build e (NewLogger_assign cfg level zapConfig) of
                  Inl err \<Rightarrow> Inl err
                | Inr zaplog \<Rightarrow>
                    (case NewRelicApp cfg of
                       None \<Rightarrow> Inr (logger (zapLogger zaplog))
                     | Some app \<Rightarrow>
                         (case nrzap_WrapBackgroundCore e (core zaplog) app of
                            Inl err \<Rightarrow> Inl err
                          | Inr backgroundCore \<Rightarrow>
                              Inr (logger (zapLogger (zap_New backgroundCore))))))))"

section \<open>Specification of field extraction\<close>

text \<open>
  The contract of the field extractor, in the words of the specification: each
  registered key contributes one field when it is non-empty and the context maps it to a
  string, and nothing otherwise; the contributions are taken in registry order; an absent
  context gives the empty sequence.
\<close>

definition field_of_key :: "Context \<Rightarrow> ContextKey \<Rightarrow> LoggingField list" where
  "field_of_key c k =
     (if k = [] then []
      else (case ctx_Value c k of any_string v \<Rightarrow> [\<lparr>Key = k, Value = v\<rparr>] | _ \<Rightarrow> []))"

definition GetLoggingFields_spec :: "ContextKey list \<Rightarrow> Context option \<Rightarrow> LoggingField list" where
  "GetLoggingFields_spec cks ctx =
     (case ctx of None \<Rightarrow> [] | Some c \<Rightarrow> concat (map (field_of_key c) cks))"

section \<open>Vocabulary of the claims\<close>

text \<open>
  The six recognized level strings with the severity each stands for, and the text by
  which the error messages name them.
\<close>

definition level_names :: "(Level \<times> zapcore_Level) list" where
  "level_names =
     [(LevelDebug, DebugLevel), (LevelInfo, InfoLevel), (LevelWarning, WarnLevel),
      (LevelError, ErrorLevel), (LevelPanic, PanicLevel), (LevelFatal, FatalLevel)]"


text \<open>
  The engine accepts a configuration when it can open every output and error-output
  path and, if a monitoring handle is configured, the handle attaches.
\<close>

definition engine_accepts :: "env \<Rightarrow> config \<Rightarrow> bool" where
  "engine_accepts e cfg =
     (zap_Open e (OutputPaths cfg) \<and> zap_Open e (ErrorOutputPaths cfg) \<and>
      (case NewRelicApp cfg of None \<Rightarrow> True | Some app \<Rightarrow> nr_attaches e app))"

text \<open>A machine on which only the standard streams open and no monitoring handle attaches.\<close>

definition env_plain :: env where
  "env_plain =
     \<lparr>sink_opens = (\<lambda>p. False), nr_attaches = (\<lambda>app. False),
      open_error = (\<lambda>paths. ''no such file or directory''),
      nr_error = (\<lambda>app. ''application not connected'')\<rparr>"

text \<open>The six emission operations of the \<^verbatim>\<open>Logger\<close> interface, by name.\<close>

datatype operation = OpDebug | OpInfo | OpWarn | OpError | OpPanic | OpFatal

fun severity :: "operation \<Rightarrow> zapcore_Level" where
  "severity OpDebug = DebugLevel"
| "severity OpInfo = InfoLevel"
| "severity OpWarn = WarnLevel"
| "severity OpError = ErrorLevel"
| "severity OpPanic = PanicLevel"
| "severity OpFatal = FatalLevel"

fun emit ::
  "operation \<Rightarrow> ContextKey list \<Rightarrow> nat \<Rightarrow> Logger \<Rightarrow> Context option \<Rightarrow> string \<Rightarrow>
     Field list \<Rightarrow> emission" where
  "emit OpDebug cks n l ctx msg flds = Debug cks n l ctx msg flds"
| "emit OpInfo cks n l ctx msg flds = Info cks n l ctx msg flds"
| "emit OpWarn cks n l ctx msg flds = Warn cks n l ctx msg flds"
| "emit OpError cks n l ctx msg flds = Error cks n l ctx msg flds"
| "emit OpPanic cks n l ctx msg flds = Panic cks n l ctx msg flds"
| "emit OpFatal cks n l ctx msg flds = Fatal cks n l ctx msg flds"

text \<open>The fields a logger carries: those bound into its engine logger by \<^verbatim>\<open>With\<close>.\<close>

definition carried :: "Logger \<Rightarrow> Field list" where
  "carried l = core_Fields (core (GetLogger l))"

definition min_level :: "Logger \<Rightarrow> zapcore_Level" where
  "min_level l = core_Level (core (GetLogger l))"

text \<open>The sampling quota of a logger's core, if the core has a sampler.\<close>

definition sampling :: "Logger \<Rightarrow> (nat \<times> nat) option" where
  "sampling l = core_Sampling (core (GetLogger l))"

text \<open>
  What a built logger keeps of the preset it was built from: the parts of a preset that
  \<^verbatim>\<open>NewLogger\<close> does not overwrite and that survive in the logger's core.
\<close>

definition from_preset :: "zap_Config \<Rightarrow> Logger \<Rightarrow> bool" where
  "from_preset zc l =
     (core_Sampling (core (GetLogger l)) = zap_Sampling zc \<and>
      zap_FunctionKey (core_EncoderConfig (core (GetLogger l))) =
        zap_FunctionKey (zap_EncoderConfig zc) \<and>
      zap_EncodeLevel (core_EncoderConfig (core (GetLogger l))) =
        zap_EncodeLevel (zap_EncoderConfig zc) \<and>
      zap_EncodeTime (core_EncoderConfig (core (GetLogger l))) =
        zap_EncodeTime (zap_EncoderConfig zc) \<and>
      zap_EncodeDuration (core_EncoderConfig (core (GetLogger l))) =
        zap_EncodeDuration (zap_EncoderConfig zc) \<and>
      zap_EncodeCaller (core_EncoderConfig (core (GetLogger l))) =
        zap_EncodeCaller (zap_EncoderConfig zc))"

text \<open>The logger that \<^verbatim>\<open>NewLogger\<close> returns when it is given no options.\<close>

definition default_logger :: Logger where
  "default_logger =
     logger (zapLogger
       \<lparr>core =
          \<lparr>core_Encoding = ''json'',
           core_EncoderConfig =
             \<lparr>zap_MessageKey = ''message'', zap_LevelKey = ''level'', zap_TimeKey = ''time'',
              zap_NameKey = ''logger'', zap_CallerKey = ''caller'', zap_FunctionKey = [],
              zap_StacktraceKey = ''stack_trace'',
              zap_EncodeLevel = ''CapitalLevelEncoder'',
              zap_EncodeTime = ''ISO8601TimeEncoder'',
              zap_EncodeDuration = ''StringDurationEncoder'',
              zap_EncodeCaller = ''ShortCallerEncoder''\<rparr>,
           core_OutputPaths = [''stdout''],
           core_Level = InfoLevel,
           core_Sampling = None,
           core_Fields = [],
           core_NewRelic = None\<rparr>,
        development = True, addCaller = False, addStack = None,
        errorOutput = [''stderr'']\<rparr>)"

text \<open>
  The logger that \<^verbatim>\<open>NewLogger\<close> returns when the production mode is its only
  option.
\<close>

definition production_logger :: Logger where
  "production_logger =
     logger (zapLogger
       \<lparr>core =
          \<lparr>core_Encoding = ''json'',
           core_EncoderConfig =
             \<lparr>zap_MessageKey = ''message'', zap_LevelKey = ''level'', zap_TimeKey = ''time'',
              zap_NameKey = ''logger'', zap_CallerKey = ''caller'', zap_FunctionKey = [],
              zap_StacktraceKey = ''stack_trace'',
              zap_EncodeLevel = ''LowercaseLevelEncoder'',
              zap_EncodeTime = ''EpochTimeEncoder'',
              zap_EncodeDuration = ''SecondsDurationEncoder'',
              zap_EncodeCaller = ''ShortCallerEncoder''\<rparr>,
           core_OutputPaths = [''stdout''],
           core_Level = InfoLevel,
           core_Sampling = Some (100, 100),
           core_Fields = [],
           core_NewRelic = None\<rparr>,
        development = False, addCaller = False, addStack = None,
        errorOutput = [''stderr'']\<rparr>)"

section \<open>Field extraction meets its specification\<close>

lemma GetLoggingFields_loop_acc:
  "GetLoggingFields_loop ctx keys acc = acc @ GetLoggingFields_loop ctx keys []"
proof (induction keys arbitrary: acc)
  case Nil
  show ?case by simp
next
  case (Cons key keys)
  show ?case
  proof (cases "key = []")
    case True
    then show ?thesis using Cons.IH [of acc] by simp
  next
    case False
    obtain v b where g: "getStringFromContext ctx key = (v, b)"
      by (cases "getStringFromContext ctx key")
    show ?thesis
    proof (cases b)
      case True
      with False g show ?thesis
        using Cons.IH [of "acc @ [\<lparr>Key = key, Value = v\<rparr>]"]
          Cons.IH [of "[\<lparr>Key = key, Value = v\<rparr>]"]
        by simp
    next
      case False
      with \<open>key \<noteq> []\<close> g show ?thesis using Cons.IH [of acc] by simp
    qed
  qed
qed

lemma GetLoggingFields_loop_step:
  "GetLoggingFields_loop (Some c) (key # keys) [] =
     field_of_key c key @ GetLoggingFields_loop (Some c) keys []"
proof (cases "key = []")
  case True
  then show ?thesis by (simp add: field_of_key_def)
next
  case False
  then show ?thesis
    using GetLoggingFields_loop_acc [of "Some c" keys "[\<lparr>Key = key, Value = v\<rparr>]" for v]
    by (cases "ctx_Value c key") (simp_all add: field_of_key_def getStringFromContext_def)
qed

lemma GetLoggingFields_loop_concat:
  "GetLoggingFields_loop (Some c) keys [] = concat (map (field_of_key c) keys)"
proof (induction keys)
  case Nil
  show ?case by simp
next
  case (Cons key keys)
  then show ?case by (simp only: GetLoggingFields_loop_step list.map concat.simps)
qed

lemma GetLoggingFields_refines: "GetLoggingFields cks ctx = GetLoggingFields_spec cks ctx"
  by (cases ctx) (simp_all add: GetLoggingFields_def GetLoggingFields_spec_def GetLoggingFields_loop_concat)

lemma GetLoggingFields_append:
  "GetLoggingFields (cks @ keys) ctx = GetLoggingFields cks ctx @ GetLoggingFields keys ctx"
  by (cases ctx) (simp_all add: GetLoggingFields_refines GetLoggingFields_spec_def)

lemma map_Key_concat:
  "map Key (concat (map (field_of_key c) cks)) =
     filter (\<lambda>k. k \<noteq> [] \<and> (\<exists>v. ctx_Value c k = any_string v)) cks"
  by (induction cks) (auto simp: field_of_key_def split: any.splits)

lemma GetLoggingFields_single:
  "k \<noteq> [] \<Longrightarrow> ctx_Value c k = any_string v \<Longrightarrow>
     GetLoggingFields [k] (Some c) = [\<lparr>Key = k, Value = v\<rparr>]"
  by (simp add: GetLoggingFields_refines GetLoggingFields_spec_def field_of_key_def)

lemma set_GetLoggingFields:
  "set (GetLoggingFields cks (Some c)) =
     {\<lparr>Key = k, Value = v\<rparr> | k v. k \<in> set cks \<and> k \<noteq> [] \<and> ctx_Value c k = any_string v}"
  by (auto simp: GetLoggingFields_refines GetLoggingFields_spec_def field_of_key_def
      split: any.splits if_splits)

lemma list_all_GetLoggingFields:
  "list_all (\<lambda>f. Key f \<noteq> [] \<and> ctx_Value c (Key f) = any_string (Value f))
     (GetLoggingFields cks (Some c))"
  unfolding list_all_iff set_GetLoggingFields by auto

text \<open>
  Claim C1. For every context, absent or not, and every state of the key registry,
  \<open>GetLoggingFields\<close> returns what the specification of the extractor says: one field
  for each entry of the registry whose key is non-empty and bound to a string in the
  context, in registry order, and nothing for a key that is empty, unbound or bound to
  a value that is not a string; an absent context gives the empty sequence. The keys of
  the result are the qualifying registry entries in their order, and each value is the
  string the context binds to its key. The function reads the registry and the context
  and writes neither, so its result is determined by the two and a repeated call returns
  the same.
\<close>

theorem GetLoggingFields_correct:
  "GetLoggingFields cks ctx = GetLoggingFields_spec cks ctx \<and>
   GetLoggingFields cks None = [] \<and>
   map Key (GetLoggingFields cks (Some c)) =
     filter (\<lambda>k. k \<noteq> [] \<and> (\<exists>v. ctx_Value c k = any_string v)) cks \<and>
   list_all (\<lambda>f. Key f \<noteq> [] \<and> ctx_Value c (Key f) = any_string (Value f))
     (GetLoggingFields cks (Some c))"
  using GetLoggingFields_refines [of cks ctx] list_all_GetLoggingFields [of c cks]
    map_Key_concat [of c cks]
  by (simp add: GetLoggingFields_refines GetLoggingFields_spec_def)

text \<open>
  The theorem at a context that binds four of the eleven built-in keys, one of them to
  an integer: the three string bindings come back in registry order.
\<close>

theorem GetLoggingFields_correct_witness:
  "GetLoggingFields contextKeys_init
     (Some (WithValue (WithValue (WithValue (WithValue Background
        ContextKeyRequestID (any_string ''r1'')) ContextKeyUserID (any_string ''u7''))
        ContextKeyHostname (any_int 3)) ContextKeyTraceID (any_string ''t9''))) =
     [\<lparr>Key = ContextKeyUserID, Value = ''u7''\<rparr>, \<lparr>Key = ContextKeyTraceID, Value = ''t9''\<rparr>,
      \<lparr>Key = ContextKeyRequestID, Value = ''r1''\<rparr>]"
  using GetLoggingFields_correct [of contextKeys_init
     "Some (WithValue (WithValue (WithValue (WithValue Background
        ContextKeyRequestID (any_string ''r1'')) ContextKeyUserID (any_string ''u7''))
        ContextKeyHostname (any_int 3)) ContextKeyTraceID (any_string ''t9''))"]
  by (simp add: GetLoggingFields_spec_def field_of_key_def contextKeys_init_def const_defs)

section \<open>Empty string values\<close>

text \<open>
  Claim C9. In a context that is present, a registered non-empty key bound to the empty
  string yields a field with that key and the empty string as value. A registered
  non-empty key has a field in the result exactly when the context binds it to a string,
  whatever the string.
\<close>

theorem empty_string_value_kept:
  assumes "k \<in> set cks" and "k \<noteq> []"
  shows "(ctx_Value c k = any_string [] \<longrightarrow>
            \<lparr>Key = k, Value = []\<rparr> \<in> set (GetLoggingFields cks (Some c))) \<and>
         ((\<exists>v. \<lparr>Key = k, Value = v\<rparr> \<in> set (GetLoggingFields cks (Some c))) =
            (\<exists>s. ctx_Value c k = any_string s))"
  using assms unfolding set_GetLoggingFields by auto

text \<open>The theorem at the built-in registry, with the trace id bound to the empty string.\<close>

theorem empty_string_value_kept_witness:
  "\<lparr>Key = ContextKeyTraceID, Value = []\<rparr> \<in>
     set (GetLoggingFields contextKeys_init
            (Some (WithValue Background ContextKeyTraceID (any_string [])))) \<and>
   GetLoggingFields contextKeys_init
     (Some (WithValue Background ContextKeyTraceID (any_string []))) =
     [\<lparr>Key = ContextKeyTraceID, Value = []\<rparr>]"
proof -
  let ?c = "WithValue Background ContextKeyTraceID (any_string [])"
  have k: "ContextKeyTraceID \<in> set contextKeys_init" "ContextKeyTraceID \<noteq> []"
    by (simp_all add: contextKeys_init_def const_defs)
  have v: "ctx_Value ?c ContextKeyTraceID = any_string []" by simp
  from empty_string_value_kept [OF k, of ?c] v
  have "\<lparr>Key = ContextKeyTraceID, Value = []\<rparr> \<in>
          set (GetLoggingFields contextKeys_init (Some ?c))"
    by blast
  moreover have "GetLoggingFields contextKeys_init (Some ?c) =
      [\<lparr>Key = ContextKeyTraceID, Value = []\<rparr>]"
    by (simp add: GetLoggingFields_refines GetLoggingFields_spec_def field_of_key_def
        contextKeys_init_def const_defs)
  ultimately show ?thesis by simp
qed

section \<open>Appending keys to the registry\<close>

text \<open>
  Claim C8, amended. After \<open>AppendContextKeys\<close>, an extraction returns what it
  returned under the registry before the append, followed by the fields of the appended
  keys. In particular, for an appended key that is non-empty and bound to a string in
  the context, the pair of the key and that string is in the result, after every field of
  the keys registered earlier. An appended empty key contributes nothing: with it the
  extraction returns what it returned before. An extraction made before the append used
  the registry as it was then, so its result is the first part of that concatenation.
\<close>

theorem AppendContextKeys_extends:
  "GetLoggingFields (AppendContextKeys cks keys) ctx =
     GetLoggingFields cks ctx @ GetLoggingFields keys ctx \<and>
   (k \<noteq> [] \<and> ctx_Value c k = any_string v \<longrightarrow>
      GetLoggingFields (AppendContextKeys cks [k]) (Some c) =
        GetLoggingFields cks (Some c) @ [\<lparr>Key = k, Value = v\<rparr>]) \<and>
   (k \<noteq> [] \<and> k \<in> set keys \<and> ctx_Value c k = any_string v \<longrightarrow>
      \<lparr>Key = k, Value = v\<rparr> \<in> set (GetLoggingFields keys (Some c))) \<and>
   GetLoggingFields (AppendContextKeys cks [[]]) ctx = GetLoggingFields cks ctx"
proof (intro conjI impI)
  show "GetLoggingFields (AppendContextKeys cks keys) ctx =
     GetLoggingFields cks ctx @ GetLoggingFields keys ctx"
    by (simp only: AppendContextKeys_def GetLoggingFields_append)
next
  assume "k \<noteq> [] \<and> ctx_Value c k = any_string v"
  then have "GetLoggingFields [k] (Some c) = [\<lparr>Key = k, Value = v\<rparr>]"
    by (simp add: GetLoggingFields_single)
  then show "GetLoggingFields (AppendContextKeys cks [k]) (Some c) =
        GetLoggingFields cks (Some c) @ [\<lparr>Key = k, Value = v\<rparr>]"
    by (simp only: AppendContextKeys_def GetLoggingFields_append)
next
  assume "k \<noteq> [] \<and> k \<in> set keys \<and> ctx_Value c k = any_string v"
  then show "\<lparr>Key = k, Value = v\<rparr> \<in> set (GetLoggingFields keys (Some c))"
    unfolding set_GetLoggingFields by blast
next
  have "GetLoggingFields [[]] ctx = []"
    by (simp add: GetLoggingFields_def)
  then show "GetLoggingFields (AppendContextKeys cks [[]]) ctx = GetLoggingFields cks ctx"
    by (simp only: AppendContextKeys_def GetLoggingFields_append append_Nil2)
qed

text \<open>
  The theorem at the built-in registry extended by the key tenant, and extended by the
  empty key.
\<close>

theorem AppendContextKeys_extends_witness:
  "GetLoggingFields (AppendContextKeys contextKeys_init [''tenant''])
     (Some (WithValue (WithValue Background ''tenant'' (any_string ''acme''))
        ContextKeyUserID (any_string ''u7''))) =
     GetLoggingFields contextKeys_init
       (Some (WithValue (WithValue Background ''tenant'' (any_string ''acme''))
          ContextKeyUserID (any_string ''u7''))) @ [\<lparr>Key = ''tenant'', Value = ''acme''\<rparr>] \<and>
   GetLoggingFields contextKeys_init
     (Some (WithValue (WithValue Background ''tenant'' (any_string ''acme''))
        ContextKeyUserID (any_string ''u7''))) = [\<lparr>Key = ContextKeyUserID, Value = ''u7''\<rparr>] \<and>
   GetLoggingFields (AppendContextKeys contextKeys_init [[]])
     (Some (WithValue Background [] (any_string ''x''))) =
     GetLoggingFields contextKeys_init (Some (WithValue Background [] (any_string ''x'')))"
proof -
  let ?c = "WithValue (WithValue Background ''tenant'' (any_string ''acme''))
        ContextKeyUserID (any_string ''u7'')"
  have v: "''tenant'' \<noteq> [] \<and> ctx_Value ?c ''tenant'' = any_string ''acme''"
    by (simp add: const_defs)
  have old: "GetLoggingFields contextKeys_init (Some ?c) =
      [\<lparr>Key = ContextKeyUserID, Value = ''u7''\<rparr>]"
    by (simp add: GetLoggingFields_refines GetLoggingFields_spec_def field_of_key_def
        contextKeys_init_def const_defs)
  from AppendContextKeys_extends [of contextKeys_init "[]" None "''tenant''" ?c "''acme''"] v
  have "GetLoggingFields (AppendContextKeys contextKeys_init [''tenant'']) (Some ?c) =
        GetLoggingFields contextKeys_init (Some ?c) @ [\<lparr>Key = ''tenant'', Value = ''acme''\<rparr>]"
    by blast
  moreover have "GetLoggingFields (AppendContextKeys contextKeys_init [[]])
       (Some (WithValue Background [] (any_string ''x''))) =
     GetLoggingFields contextKeys_init (Some (WithValue Background [] (any_string ''x'')))"
    by (rule AppendContextKeys_extends [THEN conjunct2, THEN conjunct2, THEN conjunct2])
  ultimately show ?thesis using old by simp
qed

text \<open>
  The claim as written speaks of every appended key. The empty key is skipped by the
  extraction loop even when the context binds it to a string.
\<close>

theorem AppendContextKeys_empty_key_counterexample:
  "ctx_Value (WithValue Background [] (any_string ''x'')) [] = any_string ''x'' \<and>
   \<lparr>Key = [], Value = ''x''\<rparr> \<notin>
     set (GetLoggingFields (AppendContextKeys contextKeys_init [[]])
            (Some (WithValue Background [] (any_string ''x''))))"
  by (simp add: AppendContextKeys_def set_GetLoggingFields)

section \<open>Construction: what NewLogger returns\<close>

lemma apply_options_append:
  "apply_options cfg (xs @ ys) = apply_options (apply_options cfg xs) ys"
  by (induction xs arbitrary: cfg) simp_all

lemma NewLogger_config_snoc:
  "NewLogger_config (opts @ [opt]) = opt (NewLogger_config opts)"
  by (simp add: NewLogger_config_def apply_options_append)

lemma Encoding_String_cases:
  "Encoding_String e = (if e = EncodingJson \<or> e = EncodingConsole then e else EncodingConsole)"
  by (simp add: Encoding_String_def map_index_def validEncoding_def)

lemma Encoding_String_registered:
  "Encoding_String e = ''json'' \<or> Encoding_String e = ''console''"
  by (simp add: Encoding_String_cases EncodingJson_def EncodingConsole_def)

lemma NewLogger_preset_invalid:
  "m \<notin> {AppModeDevelopment, AppModeStaging, AppModeProduction} \<Longrightarrow>
     NewLogger_preset m = Inl (errors_New ''invalid app mode'')"
  by (simp add: NewLogger_preset_def)

lemma NewLogger_invalid_mode:
  "AppMode (NewLogger_config opts) \<notin> {AppModeDevelopment, AppModeStaging, AppModeProduction}
     \<Longrightarrow> NewLogger e opts = Inl (errors_New ''invalid app mode'')"
  by (simp add: NewLogger_def NewLogger_preset_invalid)

lemma NewLogger_level_error:
  "NewLogger_preset (AppMode (NewLogger_config opts)) = Inr zc \<Longrightarrow>
   parseLevel (Level (NewLogger_config opts)) = Inl err \<Longrightarrow>
   NewLogger e opts = Inl err"
  by (simp add: NewLogger_def)

lemma Build_assign:
  "zap_Config_Build e (NewLogger_assign cfg level zc) =
     (if zap_Open e (OutputPaths cfg) \<and> zap_Open e (ErrorOutputPaths cfg)
      then Inr \<lparr>core =
                  \<lparr>core_Encoding = Encoding_String (Encoding cfg),
                   core_EncoderConfig =
                     (zap_EncoderConfig zc)
                       \<lparr>zap_TimeKey := TimeKey cfg, zap_LevelKey := LevelKey cfg,
                        zap_NameKey := NameKey cfg, zap_CallerKey := CallerKey cfg,
                        zap_MessageKey := MessageKey cfg,
                        zap_StacktraceKey := StacktraceKey cfg\<rparr>,
                   core_OutputPaths = OutputPaths cfg,
                   core_Level = level,
                   core_Sampling = zap_Sampling zc,
                   core_Fields = [],
                   core_NewRelic = None\<rparr>,
                development = zap_Development zc,
                addCaller = (\<not> DisableCaller cfg),
                addStack =
                  (if DisableStacktrace cfg then None
                   else Some (if zap_Development zc then WarnLevel else ErrorLevel)),
                errorOutput = ErrorOutputPaths cfg\<rparr>
      else if zap_Open e (OutputPaths cfg)
        then Inl (zap_open_error (open_error e (ErrorOutputPaths cfg)))
      else Inl (zap_open_error (open_error e (OutputPaths cfg))))"
  using Encoding_String_registered [of "Encoding cfg"]
  by (auto simp: zap_Config_Build_def NewLogger_assign_def)

lemma EncoderConfig_assign:
  "zap_EncoderConfig (NewLogger_assign cfg level zc) =
     (zap_EncoderConfig zc)
       \<lparr>zap_TimeKey := TimeKey cfg, zap_LevelKey := LevelKey cfg,
        zap_NameKey := NameKey cfg, zap_CallerKey := CallerKey cfg,
        zap_MessageKey := MessageKey cfg, zap_StacktraceKey := StacktraceKey cfg\<rparr>"
  by (simp add: NewLogger_assign_def)

lemma NewLogger_step:
  assumes "NewLogger_preset (AppMode (NewLogger_config opts)) = Inr zc"
    and "parseLevel (Level (NewLogger_config opts)) = Inr level"
  shows "NewLogger e opts =
     (case zap_Config_Build e (NewLogger_assign (NewLogger_config opts) level zc) of
        Inl err \<Rightarrow> Inl err
      | Inr zaplog \<Rightarrow>
          (case NewRelicApp (NewLogger_config opts) of
             None \<Rightarrow> Inr (logger (zapLogger zaplog))
           | Some app \<Rightarrow>
               (case nrzap_WrapBackgroundCore e (core zaplog) app of
                  Inl err \<Rightarrow> Inl err
                | Inr backgroundCore \<Rightarrow> Inr (logger (zapLogger (zap_New backgroundCore))))))"
  using assms by (simp add: NewLogger_def Let_def)

lemma NewLogger_success:
  assumes preset: "NewLogger_preset (AppMode (NewLogger_config opts)) = Inr zc"
    and lev: "parseLevel (Level (NewLogger_config opts)) = Inr level"
    and acc: "engine_accepts e (NewLogger_config opts)"
  shows "\<exists>zl. NewLogger e opts = Inr (logger (zapLogger zl)) \<and>
          core_Level (core zl) = level \<and> core_Fields (core zl) = [] \<and>
          core_Encoding (core zl) = Encoding_String (Encoding (NewLogger_config opts)) \<and>
          core_Sampling (core zl) = zap_Sampling zc \<and>
          core_EncoderConfig (core zl) =
            zap_EncoderConfig (NewLogger_assign (NewLogger_config opts) level zc) \<and>
          core_OutputPaths (core zl) = OutputPaths (NewLogger_config opts) \<and>
          core_NewRelic (core zl) = NewRelicApp (NewLogger_config opts)"
proof -
  let ?cfg = "NewLogger_config opts"
  from acc have o: "zap_Open e (OutputPaths ?cfg)" "zap_Open e (ErrorOutputPaths ?cfg)"
    by (simp_all add: engine_accepts_def)
  show ?thesis
  proof (cases "NewRelicApp ?cfg")
    case None
    with o show ?thesis
      by (simp add: NewLogger_step [OF preset lev] Build_assign EncoderConfig_assign)
  next
    case (Some app)
    with acc have "nr_attaches e app" by (simp add: engine_accepts_def)
    with Some o show ?thesis
      by (simp add: NewLogger_step [OF preset lev] Build_assign EncoderConfig_assign
          nrzap_WrapBackgroundCore_def zap_New_def)
  qed
qed

lemma NewLogger_engine_failure:
  assumes preset: "NewLogger_preset (AppMode (NewLogger_config opts)) = Inr zc"
    and lev: "parseLevel (Level (NewLogger_config opts)) = Inr level"
    and acc: "\<not> engine_accepts e (NewLogger_config opts)"
  shows "\<exists>m. NewLogger e opts = Inl (zap_open_error m) \<or>
              NewLogger e opts = Inl (nrzap_error m)"
proof -
  let ?cfg = "NewLogger_config opts"
  show ?thesis
  proof (cases "zap_Open e (OutputPaths ?cfg) \<and> zap_Open e (ErrorOutputPaths ?cfg)")
    case False
    have "\<exists>m. zap_Config_Build e (NewLogger_assign ?cfg level zc) = Inl (zap_open_error m)"
      unfolding Build_assign using False by auto
    then show ?thesis
      by (auto simp: NewLogger_step [OF preset lev])
  next
    case True
    with acc obtain app where app: "NewRelicApp ?cfg = Some app" "\<not> nr_attaches e app"
      by (auto simp: engine_accepts_def split: option.splits)
    from True obtain zl where "zap_Config_Build e (NewLogger_assign ?cfg level zc) = Inr zl"
      by (simp add: Build_assign)
    with app show ?thesis
      by (simp add: NewLogger_step [OF preset lev] nrzap_WrapBackgroundCore_def)
  qed
qed

lemma NewLogger_Inr:
  assumes "NewLogger e opts = Inr lg"
  shows "\<exists>zc level. NewLogger_preset (AppMode (NewLogger_config opts)) = Inr zc \<and>
           parseLevel (Level (NewLogger_config opts)) = Inr level \<and>
           engine_accepts e (NewLogger_config opts)"
proof -
  let ?cfg = "NewLogger_config opts"
  obtain zc where zc: "NewLogger_preset (AppMode ?cfg) = Inr zc"
  proof (cases "NewLogger_preset (AppMode ?cfg)")
    case (Inl err)
    then have "NewLogger e opts = Inl err" by (simp add: NewLogger_def)
    with assms show ?thesis by simp
  next
    case (Inr zc)
    then show ?thesis by (rule that)
  qed
  obtain level where lv: "parseLevel (Level ?cfg) = Inr level"
  proof (cases "parseLevel (Level ?cfg)")
    case (Inl err)
    from NewLogger_level_error [OF zc Inl] assms show ?thesis by simp
  next
    case (Inr level)
    then show ?thesis by (rule that)
  qed
  have "engine_accepts e ?cfg"
  proof (rule ccontr)
    assume "\<not> engine_accepts e ?cfg"
    from NewLogger_engine_failure [OF zc lv this] assms show False by auto
  qed
  with zc lv show ?thesis by blast
qed


lemma parseLevel_empty: "parseLevel [] = Inl (errors_New parseLevel_empty_message)"
  by (simp add: parseLevel_def)


lemma parseLevel_Inr: "parseLevel lv = Inr sev \<Longrightarrow> (lv, sev) \<in> set level_names"
  by (auto simp: level_names_def parseLevel_def split: if_splits)

lemma parseLevel_not_mode_error: "parseLevel lv \<noteq> Inl (errors_New ''invalid app mode'')"
  by (simp add: parseLevel_def parseLevel_empty_message_def parseLevel_invalid_message_def)

lemma NewLogger_preset_valid:
  "m \<in> {AppModeDevelopment, AppModeStaging, AppModeProduction} \<Longrightarrow>
     \<exists>zc. NewLogger_preset m = Inr zc"
  by (auto simp: NewLogger_preset_def)


lemma config_defaults:
  "NewLogger_config [] =
     \<lparr>Level = LevelInfo, Encoding = EncodingJson, AppMode = AppModeDevelopment,
      NewRelicApp = None, TimeKey = ''time'', LevelKey = ''level'', NameKey = ''logger'',
      CallerKey = ''caller'', MessageKey = ''message'', StacktraceKey = ''stack_trace'',
      DisableStacktrace = True, DisableCaller = True, OutputPaths = [''stdout''],
      ErrorOutputPaths = [''stderr'']\<rparr>"
  by (simp add: NewLogger_config_def WithDefaultConfig_def config_zero_def)


lemma engine_accepts_defaults:
  "OutputPaths cfg = [''stdout''] \<Longrightarrow> ErrorOutputPaths cfg = [''stderr''] \<Longrightarrow>
   NewRelicApp cfg = None \<Longrightarrow> engine_accepts e cfg"
  by (simp add: engine_accepts_def zap_Open_def)

section \<open>Level validation\<close>



section \<open>Order of validation\<close>

text \<open>
  Claim C10. \<open>NewLogger\<close> checks the application mode before the level. When the mode
  is not development, staging or production, the result is the invalid-app-mode error,
  whatever the level. The error of \<open>parseLevel\<close> is the result only when the mode is
  one of the three, and then it always is.
\<close>

theorem mode_checked_before_level:
  "(AppMode (NewLogger_config opts) \<notin> {AppModeDevelopment, AppModeStaging, AppModeProduction} \<longrightarrow>
      NewLogger e opts = Inl (errors_New ''invalid app mode'')) \<and>
   (parseLevel (Level (NewLogger_config opts)) = Inl err \<and> NewLogger e opts = Inl err \<longrightarrow>
      AppMode (NewLogger_config opts) \<in> {AppModeDevelopment, AppModeStaging, AppModeProduction}) \<and>
   (parseLevel (Level (NewLogger_config opts)) = Inl err \<and>
    AppMode (NewLogger_config opts) \<in> {AppModeDevelopment, AppModeStaging, AppModeProduction} \<longrightarrow>
      NewLogger e opts = Inl err)"
proof (intro conjI impI)
  let ?cfg = "NewLogger_config opts"
  let ?valid = "{AppModeDevelopment, AppModeStaging, AppModeProduction}"
  show inv: "NewLogger e opts = Inl (errors_New ''invalid app mode'')" if "AppMode ?cfg \<notin> ?valid"
    using that by (rule NewLogger_invalid_mode)
  show "AppMode ?cfg \<in> ?valid"
    if a: "parseLevel (Level ?cfg) = Inl err \<and> NewLogger e opts = Inl err"
  proof (rule ccontr)
    assume "AppMode ?cfg \<notin> ?valid"
    then have "NewLogger e opts = Inl (errors_New ''invalid app mode'')"
      by (rule NewLogger_invalid_mode)
    with a have "parseLevel (Level ?cfg) = Inl (errors_New ''invalid app mode'')" by simp
    then show False by (simp add: parseLevel_not_mode_error)
  qed
  show "NewLogger e opts = Inl err"
    if a: "parseLevel (Level ?cfg) = Inl err \<and> AppMode ?cfg \<in> ?valid"
  proof -
    from a obtain zc where zc: "NewLogger_preset (AppMode ?cfg) = Inr zc"
      using NewLogger_preset_valid [of "AppMode ?cfg"] by blast
    from a have "parseLevel (Level ?cfg) = Inl err" by simp
    from NewLogger_level_error [OF zc this] show ?thesis .
  qed
qed

text \<open>
  The theorem at a configuration where mode and level are both invalid, and at one where
  only the level is.
\<close>

theorem mode_checked_before_level_witness:
  "NewLogger env_plain [WithAppMode ''test'', WithLevel ''verbose''] =
     Inl (errors_New ''invalid app mode'') \<and>
   NewLogger env_plain [WithAppMode AppModeStaging, WithLevel []] =
     Inl (errors_New parseLevel_empty_message)"
proof -
  let ?valid = "{AppModeDevelopment, AppModeStaging, AppModeProduction}"
  have c: "AppMode (NewLogger_config [WithAppMode m, WithLevel lv]) = m"
    "Level (NewLogger_config [WithAppMode m, WithLevel lv]) = lv" for m lv
    by (simp_all add: NewLogger_config_def WithAppMode_def WithLevel_def)
  have t: "''test'' \<notin> ?valid"
    by (simp add: const_defs)
  have h1: "AppMode (NewLogger_config [WithAppMode ''test'', WithLevel ''verbose'']) \<notin> ?valid"
    unfolding c by (rule t)
  have a: "NewLogger env_plain [WithAppMode ''test'', WithLevel ''verbose''] =
     Inl (errors_New ''invalid app mode'')"
    by (rule mode_checked_before_level
        [where opts = "[WithAppMode ''test'', WithLevel ''verbose'']" and e = env_plain,
         THEN conjunct1, THEN mp, OF h1])
  have h2: "parseLevel (Level (NewLogger_config [WithAppMode AppModeStaging, WithLevel []])) =
        Inl (errors_New parseLevel_empty_message) \<and>
      AppMode (NewLogger_config [WithAppMode AppModeStaging, WithLevel []]) \<in> ?valid"
    unfolding c by (simp add: parseLevel_empty)
  have b: "NewLogger env_plain [WithAppMode AppModeStaging, WithLevel []] =
     Inl (errors_New parseLevel_empty_message)"
    by (rule mode_checked_before_level
        [where opts = "[WithAppMode AppModeStaging, WithLevel []]" and e = env_plain,
         THEN conjunct2, THEN conjunct2, THEN mp, OF h2])
  from a b show ?thesis by (intro conjI)
qed

section \<open>Application mode and preset\<close>

lemma from_preset_built:
  assumes "NewLogger e opts = Inr lg"
    and "NewLogger_preset (AppMode (NewLogger_config opts)) = Inr zc"
  shows "from_preset zc lg"
proof -
  from NewLogger_Inr [OF assms(1)] assms(2)
  obtain level where lev: "parseLevel (Level (NewLogger_config opts)) = Inr level"
    and acc: "engine_accepts e (NewLogger_config opts)"
    by auto
  from NewLogger_success [OF assms(2) lev acc] assms(1)
  show ?thesis
    by (auto simp: from_preset_def EncoderConfig_assign)
qed

lemma WithAppMode_last:
  "AppMode (NewLogger_config (opts @ [WithAppMode m])) = m"
  by (simp add: NewLogger_config_snoc WithAppMode_def)

text \<open>
  Claim C3. When the application mode of the effective configuration is not development,
  staging or production, \<open>NewLogger\<close> returns the invalid-app-mode error, and an error
  result carries no logger; this covers the mode named empty and the empty string. For
  development and staging the base configuration is the engine's development preset,
  for production its production preset: every logger that \<open>NewLogger\<close> returns keeps
  what the preset fixes and \<open>NewLogger\<close> does not overwrite, and a logger is returned
  whenever the level parses and the engine accepts the configuration.
\<close>

theorem NewLogger_app_mode:
  "(AppMode (NewLogger_config opts) \<notin> {AppModeDevelopment, AppModeStaging, AppModeProduction} \<longrightarrow>
      NewLogger e opts = Inl (errors_New ''invalid app mode'')) \<and>
   NewLogger e (opts @ [WithAppMode AppModeEmpty]) = Inl (errors_New ''invalid app mode'') \<and>
   NewLogger e (opts @ [WithAppMode []]) = Inl (errors_New ''invalid app mode'') \<and>
   (AppMode (NewLogger_config opts) \<in> {AppModeDevelopment, AppModeStaging} \<longrightarrow>
      NewLogger_preset (AppMode (NewLogger_config opts)) = Inr zap_NewDevelopmentConfig \<and>
      (\<forall>lg. NewLogger e opts = Inr lg \<longrightarrow> from_preset zap_NewDevelopmentConfig lg) \<and>
      (parseLevel (Level (NewLogger_config opts)) = Inr level \<and>
       engine_accepts e (NewLogger_config opts) \<longrightarrow>
         (\<exists>lg. NewLogger e opts = Inr lg \<and> from_preset zap_NewDevelopmentConfig lg))) \<and>
   (AppMode (NewLogger_config opts) = AppModeProduction \<longrightarrow>
      NewLogger_preset (AppMode (NewLogger_config opts)) = Inr zap_NewProductionConfig \<and>
      (\<forall>lg. NewLogger e opts = Inr lg \<longrightarrow> from_preset zap_NewProductionConfig lg) \<and>
      (parseLevel (Level (NewLogger_config opts)) = Inr level \<and>
       engine_accepts e (NewLogger_config opts) \<longrightarrow>
         (\<exists>lg. NewLogger e opts = Inr lg \<and> from_preset zap_NewProductionConfig lg)))"
proof (intro conjI impI allI)
  let ?cfg = "NewLogger_config opts"
  show "NewLogger e opts = Inl (errors_New ''invalid app mode'')"
    if "AppMode ?cfg \<notin> {AppModeDevelopment, AppModeStaging, AppModeProduction}"
    using that by (rule NewLogger_invalid_mode)
  show "NewLogger e (opts @ [WithAppMode AppModeEmpty]) = Inl (errors_New ''invalid app mode'')"
    by (rule NewLogger_invalid_mode) (simp add: WithAppMode_last const_defs)
  show "NewLogger e (opts @ [WithAppMode []]) = Inl (errors_New ''invalid app mode'')"
    by (rule NewLogger_invalid_mode) (simp add: WithAppMode_last const_defs)
  {
    assume m: "AppMode ?cfg \<in> {AppModeDevelopment, AppModeStaging}"
    then show p: "NewLogger_preset (AppMode ?cfg) = Inr zap_NewDevelopmentConfig"
      by (auto simp: NewLogger_preset_def)
    show "from_preset zap_NewDevelopmentConfig lg" if "NewLogger e opts = Inr lg" for lg
      using that p by (rule from_preset_built)
    show "\<exists>lg. NewLogger e opts = Inr lg \<and> from_preset zap_NewDevelopmentConfig lg"
      if a: "parseLevel (Level ?cfg) = Inr level \<and> engine_accepts e ?cfg"
    proof -
      from a have lev: "parseLevel (Level ?cfg) = Inr level" and acc: "engine_accepts e ?cfg"
        by simp_all
      from NewLogger_success [OF p lev acc] obtain lg where lg: "NewLogger e opts = Inr lg"
        by blast
      from lg from_preset_built [OF lg p] show ?thesis by blast
    qed
  }
  {
    assume m: "AppMode ?cfg = AppModeProduction"
    then show p: "NewLogger_preset (AppMode ?cfg) = Inr zap_NewProductionConfig"
      by (simp add: NewLogger_preset_def const_defs)
    show "from_preset zap_NewProductionConfig lg" if "NewLogger e opts = Inr lg" for lg
      using that p by (rule from_preset_built)
    show "\<exists>lg. NewLogger e opts = Inr lg \<and> from_preset zap_NewProductionConfig lg"
      if a: "parseLevel (Level ?cfg) = Inr level \<and> engine_accepts e ?cfg"
    proof -
      from a have lev: "parseLevel (Level ?cfg) = Inr level" and acc: "engine_accepts e ?cfg"
        by simp_all
      from NewLogger_success [OF p lev acc] obtain lg where lg: "NewLogger e opts = Inr lg"
        by blast
      from lg from_preset_built [OF lg p] show ?thesis by blast
    qed
  }
qed

text \<open>
  The theorem at an unknown mode, at the mode named empty, at the empty string, at
  staging and at production, each as the only option.
\<close>

theorem NewLogger_app_mode_witness:
  "NewLogger env_plain [WithAppMode ''test''] = Inl (errors_New ''invalid app mode'') \<and>
   NewLogger env_plain ([] @ [WithAppMode AppModeEmpty]) = Inl (errors_New ''invalid app mode'') \<and>
   NewLogger env_plain ([] @ [WithAppMode []]) = Inl (errors_New ''invalid app mode'') \<and>
   (\<exists>lg. NewLogger env_plain [WithAppMode AppModeStaging] = Inr lg \<and>
      from_preset zap_NewDevelopmentConfig lg) \<and>
   (\<exists>lg. NewLogger env_plain [WithAppMode AppModeProduction] = Inr lg \<and>
      from_preset zap_NewProductionConfig lg)"
proof -
  have c: "AppMode (NewLogger_config [WithAppMode m]) = m"
    "Level (NewLogger_config [WithAppMode m]) = LevelInfo"
    "OutputPaths (NewLogger_config [WithAppMode m]) = [''stdout'']"
    "ErrorOutputPaths (NewLogger_config [WithAppMode m]) = [''stderr'']"
    "NewRelicApp (NewLogger_config [WithAppMode m]) = None" for m
    by (simp_all add: NewLogger_config_def WithAppMode_def WithDefaultConfig_def config_zero_def)
  have ok: "parseLevel (Level (NewLogger_config [WithAppMode m])) = Inr InfoLevel \<and>
      engine_accepts env_plain (NewLogger_config [WithAppMode m])" for m
    unfolding c(2) by (simp add: parseLevel_def const_defs engine_accepts_defaults c)
  have t: "AppMode (NewLogger_config [WithAppMode ''test'']) \<notin>
      {AppModeDevelopment, AppModeStaging, AppModeProduction}"
    unfolding c by (simp add: const_defs)
  have s: "AppMode (NewLogger_config [WithAppMode AppModeStaging]) \<in>
      {AppModeDevelopment, AppModeStaging}"
    unfolding c by simp
  have p: "AppMode (NewLogger_config [WithAppMode AppModeProduction]) = AppModeProduction"
    unfolding c by simp
  note th = NewLogger_app_mode [where e = env_plain and level = InfoLevel]
  have 1: "NewLogger env_plain [WithAppMode ''test''] = Inl (errors_New ''invalid app mode'')"
    by (rule th [where opts = "[WithAppMode ''test'']", THEN conjunct1, THEN mp, OF t])
  have 2: "NewLogger env_plain ([] @ [WithAppMode AppModeEmpty]) =
      Inl (errors_New ''invalid app mode'')"
    by (rule th [where opts = "[]", THEN conjunct2, THEN conjunct1])
  have 3: "NewLogger env_plain ([] @ [WithAppMode []]) = Inl (errors_New ''invalid app mode'')"
    by (rule th [where opts = "[]", THEN conjunct2, THEN conjunct2, THEN conjunct1])
  have 4: "\<exists>lg. NewLogger env_plain [WithAppMode AppModeStaging] = Inr lg \<and>
      from_preset zap_NewDevelopmentConfig lg"
    by (rule th [where opts = "[WithAppMode AppModeStaging]", THEN conjunct2, THEN conjunct2,
          THEN conjunct2, THEN conjunct1, THEN mp, OF s, THEN conjunct2, THEN conjunct2,
          THEN mp, OF ok])
  have 5: "\<exists>lg. NewLogger env_plain [WithAppMode AppModeProduction] = Inr lg \<and>
      from_preset zap_NewProductionConfig lg"
    by (rule th [where opts = "[WithAppMode AppModeProduction]", THEN conjunct2, THEN conjunct2,
          THEN conjunct2, THEN conjunct2, THEN mp, OF p, THEN conjunct2, THEN conjunct2,
          THEN mp, OF ok])
  from 1 2 3 4 5 show ?thesis by (intro conjI)
qed

section \<open>Encoding fallback\<close>

lemma NewLogger_depends_on_Encoding_String:
  assumes c: "NewLogger_config opts' = (NewLogger_config opts)\<lparr>Encoding := x\<rparr>"
    and x: "Encoding_String x = Encoding_String (Encoding (NewLogger_config opts))"
  shows "NewLogger e opts' = NewLogger e opts"
proof -
  let ?cfg = "NewLogger_config opts" and ?cfg' = "NewLogger_config opts'"
  have same: "AppMode ?cfg' = AppMode ?cfg" "Level ?cfg' = Level ?cfg"
    "NewRelicApp ?cfg' = NewRelicApp ?cfg"
    by (simp_all add: c)
  have a: "NewLogger_assign ?cfg' level zc = NewLogger_assign ?cfg level zc" for level zc
    using x by (simp add: NewLogger_assign_def c)
  show ?thesis
  proof (cases "NewLogger_preset (AppMode ?cfg)")
    case (Inl err)
    then show ?thesis by (simp add: NewLogger_def same)
  next
    case zc: (Inr zc)
    show ?thesis
    proof (cases "parseLevel (Level ?cfg)")
      case (Inl err)
      from NewLogger_level_error [OF zc Inl]
        NewLogger_level_error [of opts' zc err] zc Inl
      show ?thesis by (simp add: same)
    next
      case (Inr level)
      from zc Inr have "NewLogger_preset (AppMode ?cfg') = Inr zc"
        "parseLevel (Level ?cfg') = Inr level"
        by (simp_all add: same)
      from NewLogger_step [OF this] NewLogger_step [OF zc Inr]
      show ?thesis by (simp only: a same)
    qed
  qed
qed

lemma WithEncoding_twice:
  "NewLogger_config (opts @ [WithEncoding x]) =
     (NewLogger_config (opts @ [WithEncoding y]))\<lparr>Encoding := x\<rparr>"
  by (simp add: NewLogger_config_snoc WithEncoding_def)

lemma NewLogger_not_encoder_error:
  "NewLogger e opts \<noteq> Inl (zap_error ''no encoder name specified'') \<and>
   NewLogger e opts \<noteq> Inl (zap_error ''no encoder registered for name'')"
proof (cases "NewLogger_preset (AppMode (NewLogger_config opts))")
  case (Inl err)
  then have "NewLogger e opts = Inl err" by (simp add: NewLogger_def)
  moreover from Inl have "err = errors_New ''invalid app mode''"
    by (simp add: NewLogger_preset_def split: if_splits)
  ultimately show ?thesis by simp
next
  case (Inr zc)
  show ?thesis
  proof (cases "parseLevel (Level (NewLogger_config opts))")
    case (Inl err)
    from NewLogger_level_error [OF Inr Inl]
    have "NewLogger e opts = Inl err" .
    moreover from Inl obtain m where "err = errors_New m"
      by (auto simp: parseLevel_def split: if_splits)
    ultimately show ?thesis by simp
  next
    case lev: (Inr level)
    show ?thesis
    proof (cases "engine_accepts e (NewLogger_config opts)")
      case True
      from NewLogger_success [OF Inr lev True] show ?thesis by auto
    next
      case False
      from NewLogger_engine_failure [OF Inr lev False] show ?thesis by auto
    qed
  qed
qed

text \<open>
  Claim C7. \<open>Encoding_String\<close> returns json and console unchanged and console for
  every other value. \<open>NewLogger\<close> passes that string to the engine, so an encoding
  outside the two gives the same result as the encoding console, the logger returned
  encodes as \<open>Encoding_String\<close> says, and \<open>NewLogger\<close> never returns either of the
  engine's errors about the encoder name.
\<close>

theorem encoding_falls_back_to_console:
  "Encoding_String enc =
     (if enc = EncodingJson \<or> enc = EncodingConsole then enc else EncodingConsole) \<and>
   (enc \<noteq> EncodingJson \<and> enc \<noteq> EncodingConsole \<longrightarrow>
      Encoding_String enc = ''console'' \<and>
      NewLogger e (opts @ [WithEncoding enc]) =
        NewLogger e (opts @ [WithEncoding EncodingConsole])) \<and>
   zap_Encoding (NewLogger_assign (NewLogger_config opts) level zc) =
     Encoding_String (Encoding (NewLogger_config opts)) \<and>
   (\<forall>lg. NewLogger e opts = Inr lg \<longrightarrow>
      core_Encoding (core (GetLogger lg)) = Encoding_String (Encoding (NewLogger_config opts))) \<and>
   NewLogger e opts \<noteq> Inl (zap_error ''no encoder name specified'') \<and>
   NewLogger e opts \<noteq> Inl (zap_error ''no encoder registered for name'')"
proof (intro conjI impI allI)
  show "Encoding_String enc =
     (if enc = EncodingJson \<or> enc = EncodingConsole then enc else EncodingConsole)"
    by (rule Encoding_String_cases)
  show "Encoding_String enc = ''console''" if "enc \<noteq> EncodingJson \<and> enc \<noteq> EncodingConsole"
    using that by (simp add: Encoding_String_cases EncodingConsole_def)
  show "NewLogger e (opts @ [WithEncoding enc]) =
        NewLogger e (opts @ [WithEncoding EncodingConsole])"
    if "enc \<noteq> EncodingJson \<and> enc \<noteq> EncodingConsole"
  proof (rule NewLogger_depends_on_Encoding_String)
    show "NewLogger_config (opts @ [WithEncoding enc]) =
        (NewLogger_config (opts @ [WithEncoding EncodingConsole]))\<lparr>Encoding := enc\<rparr>"
      by (rule WithEncoding_twice)
    show "Encoding_String enc =
        Encoding_String (Encoding (NewLogger_config (opts @ [WithEncoding EncodingConsole])))"
      using that by (simp add: NewLogger_config_snoc WithEncoding_def Encoding_String_cases)
  qed
  show "zap_Encoding (NewLogger_assign (NewLogger_config opts) level zc) =
     Encoding_String (Encoding (NewLogger_config opts))"
    by (simp add: NewLogger_assign_def)
  show "core_Encoding (core (GetLogger lg)) = Encoding_String (Encoding (NewLogger_config opts))"
    if lg: "NewLogger e opts = Inr lg" for lg
  proof -
    from NewLogger_Inr [OF lg] obtain zc' level' where
      "NewLogger_preset (AppMode (NewLogger_config opts)) = Inr zc'"
      "parseLevel (Level (NewLogger_config opts)) = Inr level'"
      "engine_accepts e (NewLogger_config opts)"
      by blast
    from NewLogger_success [OF this] lg show ?thesis by auto
  qed
  show "NewLogger e opts \<noteq> Inl (zap_error ''no encoder name specified'')"
    "NewLogger e opts \<noteq> Inl (zap_error ''no encoder registered for name'')"
    using NewLogger_not_encoder_error [of e opts] by simp_all
qed

text \<open>The theorem at the encoding xml, which the engine does not know.\<close>

theorem encoding_falls_back_to_console_witness:
  "Encoding_String ''xml'' = ''console'' \<and>
   NewLogger env_plain ([] @ [WithEncoding ''xml'']) =
     NewLogger env_plain ([] @ [WithEncoding EncodingConsole]) \<and>
   (\<exists>lg. NewLogger env_plain [WithEncoding ''xml''] = Inr lg \<and>
      core_Encoding (core (GetLogger lg)) = ''console'')"
proof -
  have x: "''xml'' \<noteq> EncodingJson \<and> ''xml'' \<noteq> EncodingConsole"
    by (simp add: const_defs)
  note th = encoding_falls_back_to_console [where e = env_plain and enc = "''xml''"]
  have 1: "Encoding_String ''xml'' = ''console'' \<and>
      NewLogger env_plain ([] @ [WithEncoding ''xml'']) =
        NewLogger env_plain ([] @ [WithEncoding EncodingConsole])"
    by (rule th [where opts = "[]", THEN conjunct2, THEN conjunct1, THEN mp, OF x])
  have c: "AppMode (NewLogger_config [WithEncoding ''xml'']) = AppModeDevelopment"
    "Level (NewLogger_config [WithEncoding ''xml'']) = LevelInfo"
    "Encoding (NewLogger_config [WithEncoding ''xml'']) = ''xml''"
    "OutputPaths (NewLogger_config [WithEncoding ''xml'']) = [''stdout'']"
    "ErrorOutputPaths (NewLogger_config [WithEncoding ''xml'']) = [''stderr'']"
    "NewRelicApp (NewLogger_config [WithEncoding ''xml'']) = None"
    by (simp_all add: NewLogger_config_def WithEncoding_def WithDefaultConfig_def config_zero_def)
  have p: "NewLogger_preset (AppMode (NewLogger_config [WithEncoding ''xml''])) =
      Inr zap_NewDevelopmentConfig"
    unfolding c by (simp add: NewLogger_preset_def)
  have l: "parseLevel (Level (NewLogger_config [WithEncoding ''xml''])) = Inr InfoLevel"
    unfolding c by (simp add: parseLevel_def const_defs)
  have a: "engine_accepts env_plain (NewLogger_config [WithEncoding ''xml''])"
    by (rule engine_accepts_defaults) (rule c)+
  from NewLogger_success [OF p l a] obtain lg where
    lg: "NewLogger env_plain [WithEncoding ''xml''] = Inr lg"
    by blast
  from th [where opts = "[WithEncoding ''xml'']", THEN conjunct2, THEN conjunct2,
      THEN conjunct2, THEN conjunct1, THEN spec, THEN mp, OF lg]
  have "core_Encoding (core (GetLogger lg)) = Encoding_String ''xml''"
    unfolding c .
  with 1 have "core_Encoding (core (GetLogger lg)) = ''console''"
    by simp
  with lg have 2: "\<exists>lg. NewLogger env_plain [WithEncoding ''xml''] = Inr lg \<and>
      core_Encoding (core (GetLogger lg)) = ''console''"
    by (intro exI [of _ lg] conjI)
  from 1 2 show ?thesis by (intro conjI) simp_all
qed

section \<open>Defaults and a level override\<close>

lemma config_default_then_level:
  "NewLogger_config [WithDefaultConfig, WithLevel lv] = (NewLogger_config [])\<lparr>Level := lv\<rparr>"
  by (simp add: NewLogger_config_def WithLevel_def WithDefaultConfig_def)

text \<open>
  Claim C4. The options \<open>WithDefaultConfig\<close> and then \<open>WithLevel\<close> of the level error
  give an effective configuration whose level is error and whose other fields are the
  defaults: JSON encoding, development mode, the key names time, level, logger, caller,
  message and stack_trace, stack traces and caller information disabled, output to
  stdout and errors to stderr. Whatever the level given, only the level differs from the
  defaults. The logger that \<open>NewLogger\<close> builds from these options, on every machine,
  has exactly these settings and the minimum level error.
\<close>

theorem default_config_with_level_error:
  "NewLogger_config [WithDefaultConfig, WithLevel LevelError] =
     \<lparr>Level = ''error'', Encoding = ''json'', AppMode = ''development'',
      NewRelicApp = None, TimeKey = ''time'', LevelKey = ''level'', NameKey = ''logger'',
      CallerKey = ''caller'', MessageKey = ''message'', StacktraceKey = ''stack_trace'',
      DisableStacktrace = True, DisableCaller = True, OutputPaths = [''stdout''],
      ErrorOutputPaths = [''stderr'']\<rparr> \<and>
   NewLogger_config [WithDefaultConfig, WithLevel lv] = (NewLogger_config [])\<lparr>Level := lv\<rparr> \<and>
   NewLogger e [WithDefaultConfig, WithLevel LevelError] =
     Inr (logger (zapLogger
       \<lparr>core =
          \<lparr>core_Encoding = ''json'',
           core_EncoderConfig =
             \<lparr>zap_MessageKey = ''message'', zap_LevelKey = ''level'', zap_TimeKey = ''time'',
              zap_NameKey = ''logger'', zap_CallerKey = ''caller'', zap_FunctionKey = [],
              zap_StacktraceKey = ''stack_trace'',
              zap_EncodeLevel = ''CapitalLevelEncoder'',
              zap_EncodeTime = ''ISO8601TimeEncoder'',
              zap_EncodeDuration = ''StringDurationEncoder'',
              zap_EncodeCaller = ''ShortCallerEncoder''\<rparr>,
           core_OutputPaths = [''stdout''],
           core_Level = ErrorLevel,
           core_Sampling = None,
           core_Fields = [],
           core_NewRelic = None\<rparr>,
        development = True, addCaller = False, addStack = None,
        errorOutput = [''stderr'']\<rparr>))"
proof (intro conjI)
  show c: "NewLogger_config [WithDefaultConfig, WithLevel LevelError] =
     \<lparr>Level = ''error'', Encoding = ''json'', AppMode = ''development'',
      NewRelicApp = None, TimeKey = ''time'', LevelKey = ''level'', NameKey = ''logger'',
      CallerKey = ''caller'', MessageKey = ''message'', StacktraceKey = ''stack_trace'',
      DisableStacktrace = True, DisableCaller = True, OutputPaths = [''stdout''],
      ErrorOutputPaths = [''stderr'']\<rparr>"
    by (simp add: config_default_then_level config_defaults const_defs)
  show "NewLogger_config [WithDefaultConfig, WithLevel lv] = (NewLogger_config [])\<lparr>Level := lv\<rparr>"
    by (rule config_default_then_level)
  let ?o = "[WithDefaultConfig, WithLevel LevelError]"
  have p: "NewLogger_preset (AppMode (NewLogger_config ?o)) = Inr zap_NewDevelopmentConfig"
    unfolding c by (simp add: NewLogger_preset_def const_defs)
  have l: "parseLevel (Level (NewLogger_config ?o)) = Inr ErrorLevel"
    unfolding c by (simp add: parseLevel_def const_defs)
  have es: "Encoding_String ''json'' = ''json''"
    by (simp add: Encoding_String_cases const_defs)
  have o: "zap_Open e [''stdout'']" "zap_Open e [''stderr'']"
    by (simp_all add: zap_Open_def)
  show "NewLogger e ?o = Inr (logger (zapLogger
       \<lparr>core =
          \<lparr>core_Encoding = ''json'',
           core_EncoderConfig =
             \<lparr>zap_MessageKey = ''message'', zap_LevelKey = ''level'', zap_TimeKey = ''time'',
              zap_NameKey = ''logger'', zap_CallerKey = ''caller'', zap_FunctionKey = [],
              zap_StacktraceKey = ''stack_trace'',
              zap_EncodeLevel = ''CapitalLevelEncoder'',
              zap_EncodeTime = ''ISO8601TimeEncoder'',
              zap_EncodeDuration = ''StringDurationEncoder'',
              zap_EncodeCaller = ''ShortCallerEncoder''\<rparr>,
           core_OutputPaths = [''stdout''],
           core_Level = ErrorLevel,
           core_Sampling = None,
           core_Fields = [],
           core_NewRelic = None\<rparr>,
        development = True, addCaller = False, addStack = None,
        errorOutput = [''stderr'']\<rparr>))"
    unfolding NewLogger_step [OF p l] Build_assign unfolding c
    by (simp add: o es zap_NewDevelopmentConfig_def zap_NewDevelopmentEncoderConfig_def)
qed

section \<open>Emission and child loggers\<close>

lemma extractTrace_loop_acc:
  "extractTrace_loop ctxFields acc =
     acc @ map (\<lambda>f. zap_String (Key f) (Value f)) ctxFields"
  by (induction ctxFields arbitrary: acc) (simp_all add: ContextKey_String_def)

lemma extractTrace_map:
  "extractTrace cks ctx = map (\<lambda>f. zap_String (Key f) (Value f)) (GetLoggingFields cks ctx)"
  by (simp add: extractTrace_def extractTrace_loop_acc)

lemma Debug_zap: "Debug cks n l ctx msg flds =
    zap_log (zap_With (GetLogger l) (extractTrace cks ctx)) n DebugLevel msg flds"
  by (induction l) (simp_all add: zap_Debug_def)

lemma Info_zap: "Info cks n l ctx msg flds =
    zap_log (zap_With (GetLogger l) (extractTrace cks ctx)) n InfoLevel msg flds"
  by (induction l) (simp_all add: zap_Info_def)

lemma Warn_zap: "Warn cks n l ctx msg flds =
    zap_log (zap_With (GetLogger l) (extractTrace cks ctx)) n WarnLevel msg flds"
  by (induction l) (simp_all add: zap_Warn_def)

lemma Error_zap: "Error cks n l ctx msg flds =
    zap_log (zap_With (GetLogger l) (extractTrace cks ctx)) n ErrorLevel msg flds"
  by (induction l) (simp_all add: zap_Error_def)

lemma Panic_zap: "Panic cks n l ctx msg flds =
    zap_log (zap_With (GetLogger l) (extractTrace cks ctx)) n PanicLevel msg flds"
  by (induction l) (simp_all add: zap_Panic_def)

lemma Fatal_zap: "Fatal cks n l ctx msg flds =
    zap_log (zap_With (GetLogger l) (extractTrace cks ctx)) n FatalLevel msg flds"
  by (induction l) (simp_all add: zap_Fatal_def)

lemma emit_zap:
  "emit op cks n l ctx msg flds =
     zap_log (zap_With (GetLogger l) (extractTrace cks ctx)) n (severity op) msg flds"
  by (cases op) (simp_all add: Debug_zap Info_zap Warn_zap Error_zap Panic_zap Fatal_zap)

lemma zap_With_core:
  "core_Fields (core (zap_With z flds)) = core_Fields (core z) @ flds"
  "core_Level (core (zap_With z flds)) = core_Level (core z)"
  "core_Sampling (core (zap_With z flds)) = core_Sampling (core z)"
  by (simp_all add: zap_With_def)

lemma entry_emit:
  "entry (emit op cks n l ctx msg flds) =
     (if level_int (min_level l) \<le> level_int (severity op) \<and> sampler_admits (sampling l) n
      then Some \<lparr>entry_Level = severity op, entry_Message = msg,
                 entry_Fields = carried l @ extractTrace cks ctx @ flds\<rparr>
      else None)"
  by (simp add: emit_zap zap_log_def zap_With_core min_level_def carried_def sampling_def)

lemma entry_emit_below:
  "level_int (severity op) < level_int (min_level l) \<Longrightarrow>
     entry (emit op cks n l ctx msg flds) = None"
  by (simp add: entry_emit)

lemma entry_emit_Some:
  "entry (emit op cks n l ctx msg flds) = Some en \<Longrightarrow>
     en = \<lparr>entry_Level = severity op, entry_Message = msg,
           entry_Fields = carried l @ extractTrace cks ctx @ flds\<rparr>"
  by (simp add: entry_emit split: if_splits)

lemma entry_emit_admitted:
  "level_int (min_level l) \<le> level_int (severity op) \<Longrightarrow> sampler_admits (sampling l) n \<Longrightarrow>
     entry (emit op cks n l ctx msg flds) =
       Some \<lparr>entry_Level = severity op, entry_Message = msg,
              entry_Fields = carried l @ extractTrace cks ctx @ flds\<rparr>"
  by (simp add: entry_emit)

lemma GetLogger_With: "GetLogger (With l flds) = zap_With (GetLogger l) flds"
  by (induction l) simp_all

lemma carried_With: "carried (With l flds) = carried l @ flds"
  by (simp add: carried_def GetLogger_With zap_With_core)

lemma min_level_With: "min_level (With l flds) = min_level l"
  by (simp add: min_level_def GetLogger_With zap_With_core)

lemma sampling_With: "sampling (With l flds) = sampling l"
  by (simp add: sampling_def GetLogger_With zap_With_core)

lemma carried_NewLogger: "NewLogger e opts = Inr l \<Longrightarrow> carried l = []"
proof -
  assume l: "NewLogger e opts = Inr l"
  from NewLogger_Inr [OF l] obtain zc level where
    "NewLogger_preset (AppMode (NewLogger_config opts)) = Inr zc"
    "parseLevel (Level (NewLogger_config opts)) = Inr level"
    "engine_accepts e (NewLogger_config opts)"
    by blast
  from NewLogger_success [OF this] l show ?thesis by (auto simp: carried_def)
qed

lemma NewLogger_no_options: "NewLogger e [] = Inr default_logger"
proof -
  have p: "NewLogger_preset (AppMode (NewLogger_config [])) = Inr zap_NewDevelopmentConfig"
    unfolding config_defaults by (simp add: NewLogger_preset_def)
  have l: "parseLevel (Level (NewLogger_config [])) = Inr InfoLevel"
    unfolding config_defaults by (simp add: parseLevel_def const_defs)
  have es: "Encoding_String EncodingJson = ''json''"
    by (simp add: Encoding_String_cases const_defs)
  have o: "zap_Open e [''stdout'']" "zap_Open e [''stderr'']"
    by (simp_all add: zap_Open_def)
  show ?thesis
    unfolding NewLogger_step [OF p l] Build_assign unfolding config_defaults
    by (simp add: o es zap_NewDevelopmentConfig_def zap_NewDevelopmentEncoderConfig_def
        default_logger_def)
qed

lemma config_production:
  "NewLogger_config [WithAppMode AppModeProduction] =
     (NewLogger_config [])\<lparr>AppMode := AppModeProduction\<rparr>"
  by (simp add: NewLogger_config_def WithAppMode_def)

lemma NewLogger_production:
  "NewLogger e [WithAppMode AppModeProduction] = Inr production_logger"
proof -
  let ?o = "[WithAppMode AppModeProduction]"
  have p: "NewLogger_preset (AppMode (NewLogger_config ?o)) = Inr zap_NewProductionConfig"
    unfolding config_production by (simp add: NewLogger_preset_def const_defs)
  have l: "parseLevel (Level (NewLogger_config ?o)) = Inr InfoLevel"
    unfolding config_production config_defaults by (simp add: parseLevel_def const_defs)
  have es: "Encoding_String EncodingJson = ''json''"
    by (simp add: Encoding_String_cases const_defs)
  have o: "zap_Open e [''stdout'']" "zap_Open e [''stderr'']"
    by (simp_all add: zap_Open_def)
  show ?thesis
    unfolding NewLogger_step [OF p l] Build_assign unfolding config_production config_defaults
    by (simp add: o es zap_NewProductionConfig_def zap_NewProductionEncoderConfig_def
        production_logger_def)
qed

lemma default_logger_facts:
  "min_level default_logger = InfoLevel" "carried default_logger = []"
  "sampling default_logger = None"
  by (simp_all add: min_level_def carried_def sampling_def default_logger_def)

lemma production_logger_facts:
  "min_level production_logger = InfoLevel" "carried production_logger = []"
  "sampling production_logger = Some (100, 100)"
  by (simp_all add: min_level_def carried_def sampling_def production_logger_def)

lemma extractTrace_user:
  "extractTrace contextKeys_init (Some (WithValue Background ContextKeyUserID (any_string ''u7'')))
     = [zap_String ''user_id'' ''u7'']"
  by (simp add: extractTrace_map GetLoggingFields_refines GetLoggingFields_spec_def
      field_of_key_def contextKeys_init_def const_defs)

lemma field_of_key_Background: "field_of_key Background k = []"
  by (simp add: field_of_key_def)

lemma concat_field_of_key_Background: "concat (map (field_of_key Background) cks) = []"
  unfolding concat_eq_Nil_conv by (auto simp: field_of_key_Background)

lemma extractTrace_Background: "extractTrace cks (Some Background) = []"
  by (simp add: extractTrace_map GetLoggingFields_refines GetLoggingFields_spec_def
      concat_field_of_key_Background)

text \<open>
  Claim C5. Let \<open>r\<close> refer to a logger in the store. \<open>With\<close> allocates a new logger
  and leaves every logger already in the store as it was, the receiver included: the
  receiver carries the fields it carried and its emissions are what they were. The new
  logger has the receiver's minimum level and carries the receiver's fields followed by
  the new ones. So every entry the new logger emits holds the receiver's fields, then the
  new fields, then the fields extracted from the context, then the fields of the call,
  while an entry of the receiver holds no new field; and the new logger does emit such
  an entry when the severity reaches the minimum level and the sampler admits it.
\<close>

theorem With_adds_fields:
  assumes "r < length s"
  shows "snd (With_ref s r flds) = length s \<and>
         length (fst (With_ref s r flds)) = Suc (length s) \<and>
         (\<forall>i<length s. fst (With_ref s r flds) ! i = s ! i) \<and>
         carried (fst (With_ref s r flds) ! r) = carried (s ! r) \<and>
         carried (fst (With_ref s r flds) ! snd (With_ref s r flds)) = carried (s ! r) @ flds \<and>
         min_level (fst (With_ref s r flds) ! snd (With_ref s r flds)) = min_level (s ! r) \<and>
         emit op cks n (fst (With_ref s r flds) ! r) ctx msg fs =
           emit op cks n (s ! r) ctx msg fs \<and>
         (\<forall>en. entry (emit op cks n (fst (With_ref s r flds) ! r) ctx msg fs) = Some en \<longrightarrow>
            en = \<lparr>entry_Level = severity op, entry_Message = msg,
                  entry_Fields = carried (s ! r) @ extractTrace cks ctx @ fs\<rparr>) \<and>
         (\<forall>en. entry (emit op cks n (fst (With_ref s r flds) ! snd (With_ref s r flds))
                        ctx msg fs) = Some en \<longrightarrow>
            en = \<lparr>entry_Level = severity op, entry_Message = msg,
                  entry_Fields = carried (s ! r) @ flds @ extractTrace cks ctx @ fs\<rparr>) \<and>
         (level_int (min_level (s ! r)) \<le> level_int (severity op) \<and>
          sampler_admits (sampling (s ! r)) n \<longrightarrow>
            entry (emit op cks n (fst (With_ref s r flds) ! snd (With_ref s r flds))
                     ctx msg fs) =
              Some \<lparr>entry_Level = severity op, entry_Message = msg,
                     entry_Fields = carried (s ! r) @ flds @ extractTrace cks ctx @ fs\<rparr>)"
proof -
  have old: "fst (With_ref s r flds) ! i = s ! i" if "i < length s" for i
    using that by (simp add: With_ref_def nth_append)
  have new: "fst (With_ref s r flds) ! snd (With_ref s r flds) = With (s ! r) flds"
    by (simp add: With_ref_def)
  have 1: "snd (With_ref s r flds) = length s"
    and 2: "length (fst (With_ref s r flds)) = Suc (length s)"
    by (simp_all add: With_ref_def)
  have 8: "en = \<lparr>entry_Level = severity op, entry_Message = msg,
                  entry_Fields = carried (s ! r) @ extractTrace cks ctx @ fs\<rparr>"
    if "entry (emit op cks n (s ! r) ctx msg fs) = Some en" for en
    using that by (rule entry_emit_Some)
  have 9: "en = \<lparr>entry_Level = severity op, entry_Message = msg,
                  entry_Fields = carried (s ! r) @ flds @ extractTrace cks ctx @ fs\<rparr>"
    if "entry (emit op cks n (With (s ! r) flds) ctx msg fs) = Some en" for en
    using entry_emit_Some [OF that] by (simp add: carried_With)
  have 10: "entry (emit op cks n (With (s ! r) flds) ctx msg fs) =
      Some \<lparr>entry_Level = severity op, entry_Message = msg,
             entry_Fields = carried (s ! r) @ flds @ extractTrace cks ctx @ fs\<rparr>"
    if "level_int (min_level (s ! r)) \<le> level_int (severity op) \<and>
        sampler_admits (sampling (s ! r)) n"
    using that
      entry_emit_admitted [of "With (s ! r) flds" op n cks ctx msg fs]
    by (simp add: carried_With min_level_With sampling_With)
  show ?thesis
    unfolding new old [OF assms]
  proof (intro conjI allI impI)
    show "snd (With_ref s r flds) = length s" by (rule 1)
    show "length (fst (With_ref s r flds)) = Suc (length s)" by (rule 2)
    show "fst (With_ref s r flds) ! i = s ! i" if "i < length s" for i
      using that by (rule old)
    show "carried (s ! r) = carried (s ! r)" by (rule refl)
    show "carried (With (s ! r) flds) = carried (s ! r) @ flds" by (rule carried_With)
    show "min_level (With (s ! r) flds) = min_level (s ! r)" by (rule min_level_With)
    show "emit op cks n (s ! r) ctx msg fs = emit op cks n (s ! r) ctx msg fs" by (rule refl)
    show "en = \<lparr>entry_Level = severity op, entry_Message = msg,
                  entry_Fields = carried (s ! r) @ extractTrace cks ctx @ fs\<rparr>"
      if "entry (emit op cks n (s ! r) ctx msg fs) = Some en" for en
      using that by (rule 8)
    show "en = \<lparr>entry_Level = severity op, entry_Message = msg,
                  entry_Fields = carried (s ! r) @ flds @ extractTrace cks ctx @ fs\<rparr>"
      if "entry (emit op cks n (With (s ! r) flds) ctx msg fs) = Some en" for en
      using that by (rule 9)
    show "entry (emit op cks n (With (s ! r) flds) ctx msg fs) =
        Some \<lparr>entry_Level = severity op, entry_Message = msg,
               entry_Fields = carried (s ! r) @ flds @ extractTrace cks ctx @ fs\<rparr>"
      if "level_int (min_level (s ! r)) \<le> level_int (severity op) \<and>
          sampler_admits (sampling (s ! r)) n"
      using that by (rule 10)
  qed
qed

text \<open>
  The theorem at a store that holds the default logger, with one field bound and an
  emission at the info severity from the child and from the parent.
\<close>

theorem With_adds_fields_witness:
  "snd (With_ref [default_logger] 0 [zap_String ''component'' ''db'']) = 1 \<and>
   fst (With_ref [default_logger] 0 [zap_String ''component'' ''db'']) ! 0 = default_logger \<and>
   entry (emit OpInfo contextKeys_init 1
            (fst (With_ref [default_logger] 0 [zap_String ''component'' ''db'']) !
               snd (With_ref [default_logger] 0 [zap_String ''component'' ''db'']))
            (Some (WithValue Background ContextKeyUserID (any_string ''u7'')))
            ''started'' [zap_Int ''n'' 1]) =
     Some \<lparr>entry_Level = InfoLevel, entry_Message = ''started'',
            entry_Fields = [zap_String ''component'' ''db'', zap_String ''user_id'' ''u7'',
                            zap_Int ''n'' 1]\<rparr> \<and>
   emit OpInfo contextKeys_init 1
     (fst (With_ref [default_logger] 0 [zap_String ''component'' ''db'']) ! 0)
     (Some (WithValue Background ContextKeyUserID (any_string ''u7'')))
     ''started'' [zap_Int ''n'' 1] =
   emit OpInfo contextKeys_init 1 default_logger
     (Some (WithValue Background ContextKeyUserID (any_string ''u7'')))
     ''started'' [zap_Int ''n'' 1]"
proof -
  let ?l = default_logger
  let ?F = "[zap_String ''component'' ''db'']"
  let ?c = "Some (WithValue Background ContextKeyUserID (any_string ''u7''))"
  have r: "(0::nat) < length [?l]" by simp
  note th = With_adds_fields [OF r, where flds = ?F and op = OpInfo and cks = contextKeys_init
      and n = 1 and ctx = ?c and msg = "''started''" and fs = "[zap_Int ''n'' 1]"]
  have 1: "snd (With_ref [?l] 0 ?F) = 1"
    using th [THEN conjunct1] by simp
  have 2: "fst (With_ref [?l] 0 ?F) ! 0 = ?l"
    using th [THEN conjunct2, THEN conjunct2, THEN conjunct1, THEN spec, THEN mp, OF r] by simp
  have adm: "level_int (min_level ([?l] ! 0)) \<le> level_int (severity OpInfo) \<and>
      sampler_admits (sampling ([?l] ! 0)) 1"
    by (simp add: default_logger_facts)
  have 3: "entry (emit OpInfo contextKeys_init 1
              (fst (With_ref [?l] 0 ?F) ! snd (With_ref [?l] 0 ?F)) ?c ''started''
              [zap_Int ''n'' 1]) =
       Some \<lparr>entry_Level = InfoLevel, entry_Message = ''started'',
              entry_Fields = [zap_String ''component'' ''db'', zap_String ''user_id'' ''u7'',
                              zap_Int ''n'' 1]\<rparr>"
    using th [THEN conjunct2, THEN conjunct2, THEN conjunct2, THEN conjunct2, THEN conjunct2,
        THEN conjunct2, THEN conjunct2, THEN conjunct2, THEN conjunct2, THEN mp, OF adm]
    by (simp add: default_logger_facts extractTrace_user)
  have 4: "emit OpInfo contextKeys_init 1 (fst (With_ref [?l] 0 ?F) ! 0) ?c ''started''
              [zap_Int ''n'' 1] =
           emit OpInfo contextKeys_init 1 ?l ?c ''started'' [zap_Int ''n'' 1]"
    using th [THEN conjunct2, THEN conjunct2, THEN conjunct2, THEN conjunct2, THEN conjunct2,
        THEN conjunct2, THEN conjunct1]
    by simp
  from 1 2 3 4 show ?thesis by (intro conjI)
qed

text \<open>
  Claim C6, amended. For each of the six emission operations, every logger, context,
  message and field list: the operation extracts the fields of the context and hands the
  call to the engine at the operation's severity. Below the logger's minimum level no
  entry is emitted. Every entry emitted has that severity and the message, and its
  fields are the fields the logger carries, then the extracted context fields, then the
  fields of the call. At or above the minimum level the entry is emitted unless the
  engine's sampler drops it. A logger as returned by \<open>NewLogger\<close> carries no fields.
\<close>

theorem emission_fields:
  "(level_int (severity op) < level_int (min_level l) \<longrightarrow>
      entry (emit op cks n l ctx msg flds) = None) \<and>
   (\<forall>en. entry (emit op cks n l ctx msg flds) = Some en \<longrightarrow>
      en = \<lparr>entry_Level = severity op, entry_Message = msg,
            entry_Fields =
              carried l @
              map (\<lambda>f. zap_String (Key f) (Value f)) (GetLoggingFields cks ctx) @ flds\<rparr>) \<and>
   (level_int (min_level l) \<le> level_int (severity op) \<and> sampler_admits (sampling l) n \<longrightarrow>
      entry (emit op cks n l ctx msg flds) =
        Some \<lparr>entry_Level = severity op, entry_Message = msg,
               entry_Fields =
                 carried l @
                 map (\<lambda>f. zap_String (Key f) (Value f)) (GetLoggingFields cks ctx) @ flds\<rparr>) \<and>
   (NewLogger e opts = Inr l \<longrightarrow> carried l = [])"
proof (intro conjI allI impI)
  show "entry (emit op cks n l ctx msg flds) = None"
    if "level_int (severity op) < level_int (min_level l)"
    using that by (rule entry_emit_below)
  show "en = \<lparr>entry_Level = severity op, entry_Message = msg,
            entry_Fields =
              carried l @
              map (\<lambda>f. zap_String (Key f) (Value f)) (GetLoggingFields cks ctx) @ flds\<rparr>"
    if "entry (emit op cks n l ctx msg flds) = Some en" for en
    using entry_emit_Some [OF that] by (simp only: extractTrace_map)
  show "entry (emit op cks n l ctx msg flds) =
        Some \<lparr>entry_Level = severity op, entry_Message = msg,
               entry_Fields =
                 carried l @
                 map (\<lambda>f. zap_String (Key f) (Value f)) (GetLoggingFields cks ctx) @ flds\<rparr>"
    if a: "level_int (min_level l) \<le> level_int (severity op) \<and> sampler_admits (sampling l) n"
  proof -
    from a have "level_int (min_level l) \<le> level_int (severity op)"
      and "sampler_admits (sampling l) n"
      by simp_all
    from entry_emit_admitted [OF this] show ?thesis by (simp only: extractTrace_map)
  qed
  show "carried l = []" if "NewLogger e opts = Inr l"
    using that by (rule carried_NewLogger)
qed

text \<open>
  The theorem at a warning and at a debug call on the default logger, with the user id
  in the context.
\<close>

theorem emission_fields_witness:
  "NewLogger env_plain [] = Inr default_logger \<and>
   entry (Warn contextKeys_init 1 default_logger
            (Some (WithValue Background ContextKeyUserID (any_string ''u7'')))
            ''slow'' [zap_Bool ''retry'' True]) =
     Some \<lparr>entry_Level = WarnLevel, entry_Message = ''slow'',
            entry_Fields = [zap_String ''user_id'' ''u7'', zap_Bool ''retry'' True]\<rparr> \<and>
   entry (Debug contextKeys_init 1 default_logger
            (Some (WithValue Background ContextKeyUserID (any_string ''u7'')))
            ''detail'' []) = None \<and>
   carried default_logger = []"
proof -
  let ?l = default_logger
  have l: "NewLogger env_plain [] = Inr ?l" by (rule NewLogger_no_options)
  let ?c = "Some (WithValue Background ContextKeyUserID (any_string ''u7''))"
  have en: "level_int (min_level ?l) \<le> level_int (severity OpWarn) \<and>
      sampler_admits (sampling ?l) 1"
    by (simp add: default_logger_facts)
  have lo: "level_int (severity OpDebug) < level_int (min_level ?l)"
    by (simp add: default_logger_facts)
  have x: "map (\<lambda>f. zap_String (Key f) (Value f)) (GetLoggingFields contextKeys_init ?c) =
      [zap_String ''user_id'' ''u7'']"
    using extractTrace_user by (simp only: extractTrace_map)
  from emission_fields [where op = OpWarn and cks = contextKeys_init and n = 1 and l = ?l
      and ctx = ?c and msg = "''slow''" and flds = "[zap_Bool ''retry'' True]",
      THEN conjunct2, THEN conjunct2, THEN conjunct1, THEN mp, OF en]
  have 1: "entry (Warn contextKeys_init 1 ?l ?c ''slow'' [zap_Bool ''retry'' True]) =
       Some \<lparr>entry_Level = WarnLevel, entry_Message = ''slow'',
              entry_Fields = [zap_String ''user_id'' ''u7'', zap_Bool ''retry'' True]\<rparr>"
    by (simp add: x default_logger_facts)
  from emission_fields [where op = OpDebug and cks = contextKeys_init and n = 1 and l = ?l
      and ctx = ?c and msg = "''detail''" and flds = "[]", THEN conjunct1, THEN mp, OF lo]
  have 2: "entry (Debug contextKeys_init 1 ?l ?c ''detail'' []) = None"
    by simp
  from emission_fields [where l = ?l and e = env_plain and opts = "[]",
      THEN conjunct2, THEN conjunct2, THEN conjunct2, THEN mp, OF l]
  have 3: "carried ?l = []" .
  from l 1 2 3 show ?thesis by (intro conjI)
qed

text \<open>
  The claim as written has every operation emit a record whose fields are the extracted
  ones followed by the call's. A debug call on the default logger, whose minimum level
  is info, emits nothing; an entry of a child logger begins with the field bound by
  \<open>With\<close>; and the logger of the production mode drops the 101st entry of one level
  and message within a tick.
\<close>

theorem emission_not_unconditional_counterexample:
  "NewLogger env_plain [] = Inr default_logger \<and>
   entry (Debug contextKeys_init 1 default_logger (Some Background) ''hello'' []) = None \<and>
   entry (Info contextKeys_init 1 (With default_logger [zap_String ''component'' ''db''])
            (Some (WithValue Background ContextKeyUserID (any_string ''u7'')))
            ''started'' [zap_Int ''n'' 1]) =
     Some \<lparr>entry_Level = InfoLevel, entry_Message = ''started'',
            entry_Fields = [zap_String ''component'' ''db'', zap_String ''user_id'' ''u7'',
                            zap_Int ''n'' 1]\<rparr> \<and>
   map (\<lambda>f. zap_String (Key f) (Value f))
       (GetLoggingFields contextKeys_init
          (Some (WithValue Background ContextKeyUserID (any_string ''u7'')))) @
     [zap_Int ''n'' 1] = [zap_String ''user_id'' ''u7'', zap_Int ''n'' 1] \<and>
   NewLogger env_plain [WithAppMode AppModeProduction] = Inr production_logger \<and>
   entry (Info contextKeys_init 101 production_logger (Some Background) ''tick'' []) = None"
proof -
  let ?c = "Some (WithValue Background ContextKeyUserID (any_string ''u7''))"
  have 1: "entry (emit OpDebug contextKeys_init 1 default_logger (Some Background)
      ''hello'' []) = None"
    by (simp only: entry_emit) (simp add: default_logger_facts)
  have 2: "entry (emit OpInfo contextKeys_init 1
      (With default_logger [zap_String ''component'' ''db'']) ?c ''started''
      [zap_Int ''n'' 1]) =
     Some \<lparr>entry_Level = InfoLevel, entry_Message = ''started'',
            entry_Fields = [zap_String ''component'' ''db'', zap_String ''user_id'' ''u7'',
                            zap_Int ''n'' 1]\<rparr>"
    by (simp only: entry_emit carried_With min_level_With sampling_With extractTrace_user)
      (simp add: default_logger_facts)
  have 3: "map (\<lambda>f. zap_String (Key f) (Value f)) (GetLoggingFields contextKeys_init ?c) @
     [zap_Int ''n'' 1] = [zap_String ''user_id'' ''u7'', zap_Int ''n'' 1]"
    using extractTrace_user by (simp only: extractTrace_map append_Cons append_Nil)
  have 4: "entry (emit OpInfo contextKeys_init 101 production_logger (Some Background)
      ''tick'' []) = None"
    by (simp only: entry_emit) (simp add: production_logger_facts)
  from 1 2 3 4 show ?thesis
    by (simp add: NewLogger_no_options NewLogger_production)
qed

end
